theory Spec2Isabelle
  imports Complex_Main
begin

section \<open>Shared data model (shared/schema.ts)\<close>

text \<open>
  A pin is a nail on the frame. Its coordinates are produced by \<^verbatim>\<open>Math.round\<close> in the
  pin generators, so they are integers. A thread connection joins two pin indices and may
  carry the hex colour of its thread (\<^verbatim>\<open>color?: string\<close>).
\<close>

record Pin =
  pin_index :: nat
  pin_x :: int
  pin_y :: int

record ThreadConnection =
  fromPin :: nat
  toPin :: nat
  color :: "string option"

datatype qualityPreset = Fast | Balanced | High

datatype frameType = Circular | Square | Rectangular

datatype colorMode = Monochrome | Color

section \<open>Face regions and the adaptive pin skip (server/face-detection.ts)\<close>

datatype region = Face | Body | Background

text \<open>\<^verbatim>\<open>getMinPinSkipForRegion(region, qualityPreset?)\<close>: the preset is optional.\<close>

fun getMinPinSkipForRegion :: "region \<Rightarrow> qualityPreset option \<Rightarrow> int" where
  "getMinPinSkipForRegion Face q = 2"
| "getMinPinSkipForRegion Body q = 4"
| "getMinPinSkipForRegion Background q =
     (if q = Some High then 6 else if q = Some Balanced then 7 else 8)"

text \<open>
  \<^verbatim>\<open>getEffectiveMinSkip(currentRegion, candidateRegion, qualityPreset?, baseMinSkip?)\<close>.
  The last argument is optional; \<^verbatim>\<open>None\<close> stands for \<^verbatim>\<open>undefined\<close>.
\<close>

definition getEffectiveMinSkip ::
  "region \<Rightarrow> region \<Rightarrow> qualityPreset option \<Rightarrow> int option \<Rightarrow> int" where
  "getEffectiveMinSkip currentRegion candidateRegion q baseMinSkip =
     (let currentSkip = getMinPinSkipForRegion currentRegion q;
          candidateSkip = getMinPinSkipForRegion candidateRegion q
      in if currentRegion = Face \<or> candidateRegion = Face then 2
         else (let regionMax = max currentSkip candidateSkip
               in case baseMinSkip of
                    Some b \<Rightarrow> max regionMax b
                  | None \<Rightarrow> regionMax))"

section \<open>Line rasterizers (server engine, Bresenham)\<close>

text \<open>
  The constants computed before the loop of both rasterizers:
  \<^verbatim>\<open>dx = |x1 - x0|\<close>, \<^verbatim>\<open>dy = |y1 - y0|\<close>, \<^verbatim>\<open>sx = x0 < x1 ? 1 : -1\<close>,
  \<^verbatim>\<open>sy = y0 < y1 ? 1 : -1\<close>, together with the end point and the image size.
\<close>

record line_consts =
  lc_x1 :: int
  lc_y1 :: int
  lc_dx :: int
  lc_dy :: int
  lc_sx :: int
  lc_sy :: int
  lc_width :: int
  lc_height :: int

definition mk_line_consts :: "int \<Rightarrow> int \<Rightarrow> int \<Rightarrow> int \<Rightarrow> int \<Rightarrow> int \<Rightarrow> line_consts" where
  "mk_line_consts x0 y0 x1 y1 width height =
     \<lparr> lc_x1 = x1, lc_y1 = y1,
       lc_dx = \<bar>x1 - x0\<bar>, lc_dy = \<bar>y1 - y0\<bar>,
       lc_sx = (if x0 < x1 then 1 else - 1),
       lc_sy = (if y0 < y1 then 1 else - 1),
       lc_width = width, lc_height = height \<rparr>"

text \<open>
  One pass through the tail of the loop body, shared verbatim by both rasterizers:
  \<^verbatim>\<open>e2 = 2*err; if (e2 > -dy) { err -= dy; x += sx; } if (e2 < dx) { err += dx; y += sy; }\<close>.
  The second test uses \<^verbatim>\<open>e2\<close> computed before the first update.
\<close>

definition next_x :: "line_consts \<Rightarrow> int \<Rightarrow> int \<Rightarrow> int" where
  "next_x c x err = (if 2 * err > - lc_dy c then x + lc_sx c else x)"

definition next_y :: "line_consts \<Rightarrow> int \<Rightarrow> int \<Rightarrow> int" where
  "next_y c y err = (if 2 * err < lc_dx c then y + lc_sy c else y)"

definition next_err :: "line_consts \<Rightarrow> int \<Rightarrow> int" where
  "next_err c err =
     (let err1 = (if 2 * err > - lc_dy c then err - lc_dy c else err)
      in if 2 * err < lc_dx c then err1 + lc_dx c else err1)"

definition in_image :: "line_consts \<Rightarrow> int \<Rightarrow> int \<Rightarrow> bool" where
  "in_image c x y \<longleftrightarrow> 0 \<le> x \<and> x < lc_width c \<and> 0 \<le> y \<and> y < lc_height c"

text \<open>
  \<^verbatim>\<open>bresenhamLine\<close>: the \<^verbatim>\<open>while (true)\<close> loop. A run that never reaches the
  \<^verbatim>\<open>break\<close> is the value \<open>None\<close>.
\<close>

partial_function (option) bresenhamLine_loop ::
  "line_consts \<Rightarrow> int \<Rightarrow> int \<Rightarrow> int \<Rightarrow> int list \<Rightarrow> int list option" where
  "bresenhamLine_loop c x y err pixels =
     (let pixels' = (if in_image c x y then pixels @ [y * lc_width c + x] else pixels)
      in if x = lc_x1 c \<and> y = lc_y1 c then Some pixels'
         else bresenhamLine_loop c (next_x c x err) (next_y c y err) (next_err c err) pixels')"

text \<open>
  \<^verbatim>\<open>bresenhamLine(x0, y0, x1, y1, width, height)\<close> on integer coordinates, where
  \<^verbatim>\<open>Math.round\<close> is the identity.
\<close>

definition bresenhamLine :: "int \<Rightarrow> int \<Rightarrow> int \<Rightarrow> int \<Rightarrow> int \<Rightarrow> int \<Rightarrow> int list option" where
  "bresenhamLine x0 y0 x1 y1 width height =
     (let c = mk_line_consts x0 y0 x1 y1 width height
      in bresenhamLine_loop c x0 y0 (lc_dx c - lc_dy c) [])"

text \<open>
  \<^verbatim>\<open>getLinePixels\<close>. The thread width in pixels is
  \<^verbatim>\<open>Math.max(1, Math.round(threadWidth * 2))\<close>; \<^verbatim>\<open>Math.round\<close> is \<open>\<lfloor>x + 1/2\<rfloor>\<close>,
  which is \<^const>\<open>round\<close>.
\<close>

definition threadWidthPx :: "real \<Rightarrow> int" where
  "threadWidthPx threadWidth = max 1 (round (threadWidth * 2))"

text \<open>\<^verbatim>\<open>pixelSet.add(i)\<close> on an insertion-ordered \<^verbatim>\<open>Set\<close>.\<close>

definition set_add :: "int list \<Rightarrow> int \<Rightarrow> int list" where
  "set_add s i = (if i \<in> set s then s else s @ [i])"

text \<open>
  The values taken by \<^verbatim>\<open>w\<close> in
  \<^verbatim>\<open>for (let w = -halfWidth; w <= halfWidth; w++)\<close>.
\<close>

definition w_offsets :: "real \<Rightarrow> real list" where
  "w_offsets halfWidth =
     map (\<lambda>k. - halfWidth + real k) [0 ..< nat (\<lfloor>2 * halfWidth\<rfloor> + 1)]"

text \<open>The pixels added perpendicular to the line around the core pixel \<open>(x0, y0)\<close>.\<close>

definition thick_add ::
  "line_consts \<Rightarrow> real \<Rightarrow> real \<Rightarrow> real \<Rightarrow> int \<Rightarrow> int \<Rightarrow> int list \<Rightarrow> int list" where
  "thick_add c perpX perpY halfWidth x0 y0 pixelSet =
     (if halfWidth > 0 then
        foldl (\<lambda>s w.
                 if w = 0 then s
                 else (let px = round (real_of_int x0 + perpX * w);
                           py = round (real_of_int y0 + perpY * w)
                       in if in_image c px py then set_add s (py * lc_width c + px) else s))
              pixelSet (w_offsets halfWidth)
      else pixelSet)"

text \<open>
  The \<^verbatim>\<open>while (true)\<close> loop of \<^verbatim>\<open>getLinePixels\<close>; its state is the current point,
  the error term, \<^verbatim>\<open>pixelSet\<close> and \<^verbatim>\<open>corePixels\<close>.
\<close>

partial_function (option) getLinePixels_loop ::
  "line_consts \<Rightarrow> real \<Rightarrow> real \<Rightarrow> real \<Rightarrow> int \<Rightarrow> int \<Rightarrow> int \<Rightarrow> int list \<Rightarrow> int list
     \<Rightarrow> (int list \<times> int list) option" where
  "getLinePixels_loop c perpX perpY halfWidth x0 y0 err pixelSet corePixels =
     (let corePixels' =
            (if in_image c x0 y0 then corePixels @ [y0 * lc_width c + x0] else corePixels);
          pixelSet1 =
            (if in_image c x0 y0 then set_add pixelSet (y0 * lc_width c + x0) else pixelSet);
          pixelSet' = thick_add c perpX perpY halfWidth x0 y0 pixelSet1
      in if x0 = lc_x1 c \<and> y0 = lc_y1 c then Some (pixelSet', corePixels')
         else getLinePixels_loop c perpX perpY halfWidth
                (next_x c x0 err) (next_y c y0 err) (next_err c err) pixelSet' corePixels')"

text \<open>
  \<^verbatim>\<open>pixelSet.size > 0 ? Array.from(pixelSet) : corePixels\<close>.
\<close>

definition linePixels_of :: "int list \<times> int list \<Rightarrow> int list" where
  "linePixels_of r = (case r of (pixelSet, corePixels) \<Rightarrow>
                        if pixelSet \<noteq> [] then pixelSet else corePixels)"

text \<open>
  The body of \<^verbatim>\<open>getLinePixels\<close> once both pins are known: the constants before the
  loop, the loop, and the choice of the result. \<open>None\<close> means the loop never leaves.
\<close>

definition rasterLine :: "Pin \<Rightarrow> Pin \<Rightarrow> int \<Rightarrow> int \<Rightarrow> int \<Rightarrow> int list option" where
  "rasterLine from to width height widthPx =
     (let x0 = pin_x from; y0 = pin_y from;
          x1 = pin_x to; y1 = pin_y to;
          c = mk_line_consts x0 y0 x1 y1 width height;
          lineLen = sqrt (real_of_int (lc_dx c * lc_dx c + lc_dy c * lc_dy c));
          perpX = (if lineLen > 0 then - real_of_int (y1 - y0) / lineLen else 0);
          perpY = (if lineLen > 0 then real_of_int (x1 - x0) / lineLen else 0);
          halfWidth = (real_of_int widthPx - 1) / 2
      in map_option linePixels_of
           (getLinePixels_loop c perpX perpY halfWidth x0 y0 (lc_dx c - lc_dy c) [] []))"

text \<open>
  The line cache \<^verbatim>\<open>Map<string, number[]>\<close> with key
  \<^verbatim>\<open>`${fromPin}-${toPin}-${threadWidthPx}`\<close>, represented by the triple the key prints.
\<close>

type_synonym lineCache = "(nat \<times> nat \<times> int) \<rightharpoonup> int list"

text \<open>
  \<^verbatim>\<open>getLinePixels(fromPin, toPin)\<close> with the parts of the engine state it reads (pins,
  image size, \<^verbatim>\<open>params.threadWidth\<close>) as arguments and the cache passed through.
  An index outside \<^verbatim>\<open>pins\<close> reads \<^verbatim>\<open>undefined\<close> and returns the empty list
  without caching it.
\<close>

definition getLinePixels ::
  "Pin list \<Rightarrow> int \<Rightarrow> int \<Rightarrow> real \<Rightarrow> lineCache \<Rightarrow> nat \<Rightarrow> nat
     \<Rightarrow> (int list \<times> lineCache) option" where
  "getLinePixels pins width height threadWidth cache a b =
     (let key = (a, b, threadWidthPx threadWidth)
      in case cache key of
           Some ps \<Rightarrow> Some (ps, cache)
         | None \<Rightarrow>
             if length pins \<le> a \<or> length pins \<le> b then Some ([], cache)
             else map_option (\<lambda>pixels. (pixels, cache(key \<mapsto> pixels)))
                    (rasterLine (pins ! a) (pins ! b) width height (threadWidthPx threadWidth)))"

text \<open>Loop invariant of the rasterizers: the remaining signed distances to the end point.\<close>

definition rem_x :: "line_consts \<Rightarrow> int \<Rightarrow> int" where
  "rem_x c x = lc_sx c * (lc_x1 c - x)"

definition rem_y :: "line_consts \<Rightarrow> int \<Rightarrow> int" where
  "rem_y c y = lc_sy c * (lc_y1 c - y)"

definition bres_inv :: "line_consts \<Rightarrow> int \<Rightarrow> int \<Rightarrow> int \<Rightarrow> bool" where
  "bres_inv c x y err \<longleftrightarrow>
     (lc_sx c = 1 \<or> lc_sx c = - 1) \<and> (lc_sy c = 1 \<or> lc_sy c = - 1) \<and>
     0 \<le> rem_x c x \<and> rem_x c x \<le> lc_dx c \<and>
     0 \<le> rem_y c y \<and> rem_y c y \<le> lc_dy c \<and>
     err = lc_dx c - lc_dy c + rem_x c x * lc_dy c - rem_y c y * lc_dx c"

definition idx_ok :: "int \<Rightarrow> int \<Rightarrow> int list \<Rightarrow> bool" where
  "idx_ok width height ps \<longleftrightarrow> (\<forall>i\<in>set ps. 0 \<le> i \<and> i < width * height)"

definition cache_ok :: "int \<Rightarrow> int \<Rightarrow> lineCache \<Rightarrow> bool" where
  "cache_ok width height cache \<longleftrightarrow> (\<forall>ps\<in>ran cache. idx_ok width height ps)"

section \<open>Generation parameters (shared/schema.ts)\<close>

text \<open>
  The fields of \<^verbatim>\<open>GenerationParams\<close>. Numbers that the engine uses as counts or pin
  distances are integers; widths and opacities are real numbers. JavaScript numbers are
  IEEE doubles: here they are exact integers and reals, so the rounding error of the
  floating-point operations is not part of the model.
\<close>

record ImageCropParams =
  crop_scale :: real
  crop_offsetX :: real
  crop_offsetY :: real

record GenerationParams =
  frameType :: frameType
  pinCount :: int
  frameSize :: int
  threadWidth :: real
  threadOpacity :: real
  colorMode :: colorMode
  maxThreads :: int
  qualityPreset :: qualityPreset
  useEdgeDetection :: bool
  useSimulatedAnnealing :: bool
  usePinFatigue :: bool
  minPinSkip :: int
  imageCrop :: "ImageCropParams option"

section \<open>Stage policies of the three-stage drivers\<close>






text \<open>The default parameters of the schema with preset high.\<close>

definition defaultParams :: GenerationParams where
  "defaultParams =
     \<lparr> frameType = Circular, pinCount = 400, frameSize = 500, threadWidth = 0.4,
       threadOpacity = 0.12, colorMode = Monochrome, maxThreads = 10000,
       qualityPreset = High, useEdgeDetection = True, useSimulatedAnnealing = False,
       usePinFatigue = False, minPinSkip = 2, imageCrop = None \<rparr>"

section \<open>Engine state\<close>

text \<open>
  \<^verbatim>\<open>PixelData\<close>, \<^verbatim>\<open>FaceRegionMask\<close> and the fields of \<^verbatim>\<open>GeneratorState\<close> that the
  functions below read or write. The canvases hold the integers that \<^verbatim>\<open>Math.round\<close>
  produced; the density map holds reals. \<open>GeneratorState\<close> is the state of a monochrome
  run, where \<^verbatim>\<open>colorImage\<close> and \<^verbatim>\<open>colorProgressImage\<close> are \<^verbatim>\<open>undefined\<close>;
  \<open>ColorState\<close> adds the shared RGB canvas of a colour run and the engine's
  \<^verbatim>\<open>recentColorCounts\<close> map, kept as the list of its entries in insertion order.
\<close>

type_synonym rgb = "int \<times> int \<times> int"

record PixelData =
  pd_data :: "int list"
  pd_width :: int
  pd_height :: int

record FaceRegionMask =
  faceMask :: "bool list"
  bodyMask :: "bool list"
  mask_width :: int
  mask_height :: int

record GeneratorState =
  targetImage :: PixelData
  progressImage :: "int list"
  densityImage :: "real list"
  edgeMap :: "real list"
  pins :: "Pin list"
  connections :: "ThreadConnection list"
  pinUsageCount :: "int list"
  currentPin :: nat
  lineCache :: lineCache
  overdrawMap :: "int list"
  faceRegionMask :: "FaceRegionMask option"


text \<open>\<^verbatim>\<open>this.getLinePixels(fromPin, toPin)\<close> on a state.\<close>

definition statePixels ::
  "GenerationParams \<Rightarrow> 'a GeneratorState_scheme \<Rightarrow> nat \<Rightarrow> nat
     \<Rightarrow> (int list \<times> lineCache) option" where
  "statePixels params st a b =
     getLinePixels (pins st) (pd_width (targetImage st)) (pd_height (targetImage st))
       (threadWidth params) (lineCache st) a b"

section \<open>Compositor\<close>

text \<open>
  The forward blend of a black thread on one canvas value, as written in
  \<^verbatim>\<open>applyLineWithColor\<close>, \<^verbatim>\<open>applyLineWithOpacity\<close> and \<^verbatim>\<open>rebuildProgressImage\<close>.
  \<^verbatim>\<open>Math.pow(x, 2.2)\<close> on \<open>x \<ge> 0\<close> is \<open>x powr 2.2\<close>, with value 0 at 0.
\<close>

definition blendMono :: "real \<Rightarrow> int \<Rightarrow> int" where
  "blendMono opacity currentVal =
     (let currentLinear = (real_of_int currentVal / 255) powr 2.2;
          threadLinear = 1 - opacity;
          blendedLinear = currentLinear * threadLinear;
          newVal = blendedLinear powr (1 / 2.2) * 255
      in max 0 (round newVal))"

text \<open>The reverse blend of \<^verbatim>\<open>revertLine\<close> on one canvas value.\<close>

definition revertMono :: "real \<Rightarrow> int \<Rightarrow> int" where
  "revertMono opacity currentVal =
     (let currentLinear = (real_of_int currentVal / 255) powr 2.2;
          threadLinear = 1 - opacity;
          revertedLinear = min 1 (currentLinear / threadLinear);
          newVal = revertedLinear powr (1 / 2.2) * 255
      in min 255 (round newVal))"

text \<open>
  The density updates: source-over forward,
  \<^verbatim>\<open>oldDensity + opacity * (1 - oldDensity)\<close>, and the approximate revert
  \<^verbatim>\<open>Math.max(0, (oldDensity - threadOpacity) / (1 - threadOpacity))\<close>.
\<close>

definition densityForward :: "real \<Rightarrow> real \<Rightarrow> real" where
  "densityForward opacity oldDensity = oldDensity + opacity * (1 - oldDensity)"

definition densityRevert :: "real \<Rightarrow> real \<Rightarrow> real" where
  "densityRevert opacity oldDensity = max 0 ((oldDensity - opacity) / (1 - opacity))"

text \<open>
  The body of the pixel loop of \<^verbatim>\<open>applyLineWithColor\<close> and \<^verbatim>\<open>applyLineWithOpacity\<close>
  in a monochrome run (no colour canvas). Pixel indices come from the rasterizer and lie
  inside the canvases; a list update outside a list changes nothing.
\<close>

definition applyPixel :: "real \<Rightarrow> GeneratorState \<Rightarrow> int \<Rightarrow> GeneratorState" where
  "applyPixel opacity st idx =
     st\<lparr> progressImage :=
           (progressImage st)[nat idx := blendMono opacity (progressImage st ! nat idx)],
         overdrawMap := (overdrawMap st)[nat idx := overdrawMap st ! nat idx + 1],
         densityImage :=
           (densityImage st)[nat idx := densityForward opacity (densityImage st ! nat idx)] \<rparr>"

text \<open>\<^verbatim>\<open>xs[i]++\<close>.\<close>

definition incr :: "int list \<Rightarrow> nat \<Rightarrow> int list" where
  "incr xs i = xs[i := xs ! i + 1]"

text \<open>\<^verbatim>\<open>xs[i] = Math.max(0, xs[i] - 1)\<close>.\<close>

definition decr :: "int list \<Rightarrow> nat \<Rightarrow> int list" where
  "decr xs i = xs[i := max 0 (xs ! i - 1)]"

text \<open>
  What both apply functions do after the pixel loop: count the two pins, push the
  connection, move the current pin.
\<close>

definition recordConnection ::
  "GeneratorState \<Rightarrow> nat \<Rightarrow> nat \<Rightarrow> string option \<Rightarrow> GeneratorState" where
  "recordConnection st a b col =
     st\<lparr> pinUsageCount := incr (incr (pinUsageCount st) a) b,
         connections := connections st @ [\<lparr>fromPin = a, toPin = b, color = col\<rparr>],
         currentPin := b \<rparr>"


text \<open>
  \<^verbatim>\<open>applyLineWithColor(fromPin, toPin, color?)\<close>: the same body with
  \<^verbatim>\<open>params.threadOpacity\<close>; \<^verbatim>\<open>applyLineGammaCorrected\<close> calls it without a colour.
\<close>

definition applyLineWithColor ::
  "GenerationParams \<Rightarrow> GeneratorState \<Rightarrow> nat \<Rightarrow> nat \<Rightarrow> string option
     \<Rightarrow> GeneratorState option" where
  "applyLineWithColor params st a b col =
     (case statePixels params st a b of
        None \<Rightarrow> None
      | Some (pixels, cache') \<Rightarrow>
          Some (recordConnection
                  (foldl (applyPixel (threadOpacity params)) (st\<lparr>lineCache := cache'\<rparr>) pixels)
                  a b col))"

definition applyLineGammaCorrected ::
  "GenerationParams \<Rightarrow> GeneratorState \<Rightarrow> nat \<Rightarrow> nat \<Rightarrow> GeneratorState option" where
  "applyLineGammaCorrected params st a b = applyLineWithColor params st a b None"

text \<open>The body of the pixel loop of \<^verbatim>\<open>revertLine\<close> in a monochrome run.\<close>

definition revertPixel :: "real \<Rightarrow> GeneratorState \<Rightarrow> int \<Rightarrow> GeneratorState" where
  "revertPixel opacity st idx =
     st\<lparr> progressImage :=
           (progressImage st)[nat idx := revertMono opacity (progressImage st ! nat idx)],
         overdrawMap := (overdrawMap st)[nat idx := max 0 (overdrawMap st ! nat idx - 1)],
         densityImage :=
           (densityImage st)[nat idx := densityRevert opacity (densityImage st ! nat idx)] \<rparr>"

text \<open>
  \<^verbatim>\<open>revertLine(fromPin, toPin, threadColor?)\<close>; the colour is only used for a colour
  canvas, so it is not an argument here.
\<close>

definition revertLine ::
  "GenerationParams \<Rightarrow> GeneratorState \<Rightarrow> nat \<Rightarrow> nat \<Rightarrow> GeneratorState option" where
  "revertLine params st a b =
     (case statePixels params st a b of
        None \<Rightarrow> None
      | Some (pixels, cache') \<Rightarrow>
          (let st1 = foldl (revertPixel (threadOpacity params)) (st\<lparr>lineCache := cache'\<rparr>) pixels
           in Some (st1\<lparr>pinUsageCount := decr (decr (pinUsageCount st1) a) b\<rparr>)))"

text \<open>
  The thread palette of the interleaved colour mode,
  \<^verbatim>\<open>THREAD_COLOR_PALETTE\<close>: hex string, name and RGB triple of each entry.
\<close>

record paletteColor =
  pc_hex :: string
  pc_name :: string
  pc_rgb :: rgb

definition THREAD_COLOR_PALETTE :: "paletteColor list" where
  "THREAD_COLOR_PALETTE =
     [ \<lparr> pc_hex = ''#000000'', pc_name = ''Black'', pc_rgb = (0, 0, 0) \<rparr>,
       \<lparr> pc_hex = ''#00BCD4'', pc_name = ''Cyan'', pc_rgb = (0, 188, 212) \<rparr>,
       \<lparr> pc_hex = ''#E91E63'', pc_name = ''Magenta'', pc_rgb = (233, 30, 99) \<rparr>,
       \<lparr> pc_hex = ''#FFEB3B'', pc_name = ''Yellow'', pc_rgb = (255, 235, 59) \<rparr> ]"

text \<open>\<^verbatim>\<open>Math.pow(c / 255, 2.2)\<close> on a channel value.\<close>

definition toLinear :: "int \<Rightarrow> real" where
  "toLinear c = (real_of_int c / 255) powr 2.2"

text \<open>
  The subtractive blend of one channel in \<^verbatim>\<open>applyColoredLine\<close>:
  \<^verbatim>\<open>absorb = (1 - colorLinear) * opacity\<close>, \<^verbatim>\<open>newLinear = currentLinear * (1 - absorb)\<close>,
  clamped to a byte after the conversion back.
\<close>

definition absorb :: "int \<Rightarrow> real \<Rightarrow> real" where
  "absorb colorChannel opacity = (1 - toLinear colorChannel) * opacity"

definition blendSubtractive :: "int \<Rightarrow> real \<Rightarrow> int \<Rightarrow> int" where
  "blendSubtractive colorChannel opacity current =
     (let currentLinear = toLinear current;
          newLinear = currentLinear * (1 - absorb colorChannel opacity)
      in max 0 (min 255 (round (newLinear powr (1 / 2.2) * 255))))"









text \<open>
  The state that \<^verbatim>\<open>generate\<close> builds in its step 4: white canvas, zero density and
  overdraw, no connection, current pin 0, empty line cache.
\<close>

definition initialState ::
  "PixelData \<Rightarrow> Pin list \<Rightarrow> real list \<Rightarrow> FaceRegionMask option \<Rightarrow> GeneratorState" where
  "initialState imageData pns edges fmask =
     (let pixelCount = nat (pd_width imageData * pd_height imageData)
      in \<lparr> targetImage = imageData,
           progressImage = replicate pixelCount 255,
           densityImage = replicate pixelCount 0,
           edgeMap = edges,
           pins = pns,
           connections = [],
           pinUsageCount = replicate (length pns) 0,
           currentPin = 0,
           lineCache = Map.empty,
           overdrawMap = replicate pixelCount 0,
           faceRegionMask = fmask \<rparr>)"

text \<open>
  A small instance used to exercise the theorems: a white 2 by 2 target with two pins on
  its top row.
\<close>

definition tinyImage :: PixelData where
  "tinyImage = \<lparr> pd_data = [255, 255, 255, 255], pd_width = 2, pd_height = 2 \<rparr>"

definition tinyPins :: "Pin list" where
  "tinyPins = [\<lparr>pin_index = 0, pin_x = 0, pin_y = 0\<rparr>, \<lparr>pin_index = 1, pin_x = 1, pin_y = 0\<rparr>]"

definition tinyState :: GeneratorState where
  "tinyState = initialState tinyImage tinyPins [] None"


section \<open>The LAB colour scorer\<close>























section \<open>Pin placement\<close>







section \<open>Image preprocessing\<close>

text \<open>
  The image library \<^verbatim>\<open>sharp\<close> is outside the repository, so the three calls the
  preprocessor makes are parameters: reading the metadata (width and height, each possibly
  absent), the grayscale pipeline and the colour pipeline, each on the image bytes, an
  optional extract region \<open>(left, top, width, height)\<close> and the target size. \<open>None\<close> is
  a thrown error, which the \<^verbatim>\<open>try\<close> block of the caller catches. The bytes are the
  decoded buffer; \<^verbatim>\<open>Math.random()\<close> is the stream of its successive results.
\<close>

type_synonym bytes = "nat list"

type_synonym extractRegion = "int \<times> int \<times> int \<times> int"

record sharpLib =
  sharp_metadata :: "bytes \<Rightarrow> (int option \<times> int option) option"
  sharp_gray :: "bytes \<Rightarrow> extractRegion option \<Rightarrow> int \<Rightarrow> PixelData option"
  sharp_color ::
    "bytes \<Rightarrow> extractRegion option \<Rightarrow> int \<Rightarrow> int \<Rightarrow> (int list \<times> int \<times> int \<times> nat) option"

record ColorPixelData =
  cpd_data :: "rgb list"
  cpd_width :: int
  cpd_height :: int

text \<open>\<^verbatim>\<open>metadata.width || targetSize\<close>: absent and 0 both give the default.\<close>

definition orDefault :: "int option \<Rightarrow> int \<Rightarrow> int" where
  "orDefault v d = (case v of None \<Rightarrow> d | Some n \<Rightarrow> if n = 0 then d else n)"

text \<open>The crop region computed from the metadata; it is used only when \<open>scale > 1\<close>.\<close>

definition cropRegion :: "ImageCropParams \<Rightarrow> int \<Rightarrow> int \<Rightarrow> extractRegion option" where
  "cropRegion crop imgWidth imgHeight =
     (let cropSize = real_of_int (min imgWidth imgHeight) / crop_scale crop;
          maxOffsetX = (real_of_int imgWidth - cropSize) / 2;
          maxOffsetY = (real_of_int imgHeight - cropSize) / 2;
          left = round (maxOffsetX + crop_offsetX crop * maxOffsetX);
          top = round (maxOffsetY + crop_offsetY crop * maxOffsetY)
      in if crop_scale crop > 1
         then Some (max 0 left, max 0 top,
                    round (min cropSize (real_of_int imgWidth)),
                    round (min cropSize (real_of_int imgHeight)))
         else None)"

definition cropOf :: "GenerationParams \<Rightarrow> ImageCropParams" where
  "cropOf params =
     (case imageCrop params of
        Some c \<Rightarrow> c
      | None \<Rightarrow> \<lparr> crop_scale = 1, crop_offsetX = 0, crop_offsetY = 0 \<rparr>)"

text \<open>The \<^verbatim>\<open>catch\<close> branch of \<^verbatim>\<open>preprocessImage\<close>: a radial gradient.\<close>

definition fallbackGradient :: "int \<Rightarrow> PixelData" where
  "fallbackGradient sz =
     \<lparr> pd_data =
         map (\<lambda>i. let x = real (i mod nat sz);
                       y = real (i div nat sz);
                       centerX = real_of_int sz / 2;
                       centerY = real_of_int sz / 2;
                       dist = sqrt ((x - centerX)\<^sup>2 + (y - centerY)\<^sup>2);
                       maxDist = sqrt 2 * real_of_int sz / 2
                   in round (dist / maxDist * 255))
             [0 ..< nat (sz * sz)],
       pd_width = sz, pd_height = sz \<rparr>"

text \<open>\<^verbatim>\<open>preprocessImage\<close> from the decoded bytes on.\<close>

definition preprocessImage :: "sharpLib \<Rightarrow> GenerationParams \<Rightarrow> bytes \<Rightarrow> PixelData" where
  "preprocessImage sharp params inputBuffer =
     (let targetSize = min (frameSize params) 512;
          crop = cropOf params
      in case sharp_metadata sharp inputBuffer of
           None \<Rightarrow> fallbackGradient targetSize
         | Some (mw, mh) \<Rightarrow>
             (let imgWidth = orDefault mw targetSize;
                  imgHeight = orDefault mh targetSize
              in case sharp_gray sharp inputBuffer (cropRegion crop imgWidth imgHeight)
                        targetSize of
                   None \<Rightarrow> fallbackGradient targetSize
                 | Some img \<Rightarrow> img))"

text \<open>
  The \<^verbatim>\<open>catch\<close> branch of \<^verbatim>\<open>preprocessColorImage\<close>: pixel \<open>i\<close> is grey with value
  \<^verbatim>\<open>Math.floor(Math.random() * 128)\<close>, the \<open>i\<close>-th draw.
\<close>

definition colorFallback :: "(nat \<Rightarrow> real) \<Rightarrow> int \<Rightarrow> int \<Rightarrow> ColorPixelData" where
  "colorFallback rnd targetWidth targetHeight =
     \<lparr> cpd_data = map (\<lambda>i. let val = \<lfloor>rnd i * 128\<rfloor> in (val, val, val))
                      [0 ..< nat (targetWidth * targetHeight)],
       cpd_width = targetWidth, cpd_height = targetHeight \<rparr>"

text \<open>The pixel loop over the raw buffer, \<^verbatim>\<open>channels\<close> bytes per pixel.\<close>

definition rawToRgb :: "int list \<Rightarrow> nat \<Rightarrow> rgb list" where
  "rawToRgb rawPixels channels =
     map (\<lambda>k. (rawPixels ! (k * channels), rawPixels ! (k * channels + 1),
               rawPixels ! (k * channels + 2)))
         [0 ..< (length rawPixels + channels - 1) div channels]"

text \<open>\<^verbatim>\<open>preprocessColorImage\<close> from the decoded bytes on.\<close>

definition preprocessColorImage ::
  "sharpLib \<Rightarrow> (nat \<Rightarrow> real) \<Rightarrow> GenerationParams \<Rightarrow> bytes \<Rightarrow> int \<Rightarrow> int \<Rightarrow> ColorPixelData" where
  "preprocessColorImage sharp rnd params inputBuffer targetWidth targetHeight =
     (let crop = cropOf params
      in case sharp_metadata sharp inputBuffer of
           None \<Rightarrow> colorFallback rnd targetWidth targetHeight
         | Some (mw, mh) \<Rightarrow>
             (let imgWidth = orDefault mw targetWidth;
                  imgHeight = orDefault mh targetHeight
              in case sharp_color sharp inputBuffer (cropRegion crop imgWidth imgHeight)
                        targetWidth targetHeight of
                   None \<Rightarrow> colorFallback rnd targetWidth targetHeight
                 | Some (rawPixels, w, h, channels) \<Rightarrow>
                     \<lparr> cpd_data = rawToRgb rawPixels channels,
                       cpd_width = w, cpd_height = h \<rparr>))"

text \<open>An image library that rejects every input, as it does on malformed bytes.\<close>

definition rejectingSharp :: sharpLib where
  "rejectingSharp =
     \<lparr> sharp_metadata = (\<lambda>_. None), sharp_gray = (\<lambda>_ _ _. None),
       sharp_color = (\<lambda>_ _ _ _. None) \<rparr>"

section \<open>The three-stage monochrome driver\<close>



























section \<open>Rebuild and genetic refinement\<close>

text \<open>
  \<^verbatim>\<open>rebuildProgressImage\<close>: a white canvas and zero pin counts, then every connection
  of the log in order, each pixel of its line blended at \<^verbatim>\<open>params.threadOpacity\<close>, and
  its two pins counted. Overdraw and density are not touched.
\<close>

definition rebuildPixel :: "real \<Rightarrow> GeneratorState \<Rightarrow> int \<Rightarrow> GeneratorState" where
  "rebuildPixel opacity st idx =
     st\<lparr> progressImage :=
           (progressImage st)[nat idx := blendMono opacity (progressImage st ! nat idx)] \<rparr>"

definition rebuildLine ::
  "GenerationParams \<Rightarrow> GeneratorState option \<Rightarrow> ThreadConnection \<Rightarrow> GeneratorState option" where
  "rebuildLine params sto conn =
     (case sto of
        None \<Rightarrow> None
      | Some st \<Rightarrow>
          (case statePixels params st (fromPin conn) (toPin conn) of
             None \<Rightarrow> None
           | Some (pixels, cache') \<Rightarrow>
               (let st1 = foldl (rebuildPixel (threadOpacity params)) (st\<lparr>lineCache := cache'\<rparr>)
                            pixels
                in Some (st1\<lparr>pinUsageCount :=
                                incr (incr (pinUsageCount st1) (fromPin conn)) (toPin conn)\<rparr>))))"

definition rebuildProgressImage :: "GenerationParams \<Rightarrow> GeneratorState \<Rightarrow> GeneratorState option" where
  "rebuildProgressImage params st =
     foldl (rebuildLine params)
       (Some (st\<lparr> progressImage :=
                    replicate (nat (pd_width (targetImage st) * pd_height (targetImage st))) 255,
                  pinUsageCount := replicate (length (pins st)) 0 \<rparr>))
       (connections st)"

text \<open>
  The mutation of one connection of an individual,
  \<^verbatim>\<open>if (newToPin !== individual[idx].fromPin) individual[idx].toPin = newToPin\<close>, and the
  initial mutations of one individual; the loop \<^verbatim>\<open>i < individual.length * mutationRate\<close>
  runs \<open>\<lceil>0.15 length\<rceil>\<close> times. The draws of \<^verbatim>\<open>Math.random()\<close> are \<open>rnd k\<close>,
  \<open>rnd (k + 1)\<close>, ... and each function returns the index of the next draw.
\<close>

definition setToPin :: "ThreadConnection list \<Rightarrow> nat \<Rightarrow> nat \<Rightarrow> ThreadConnection list" where
  "setToPin individual idx newToPin =
     (if newToPin \<noteq> fromPin (individual ! idx)
      then individual[idx := (individual ! idx)\<lparr>toPin := newToPin\<rparr>]
      else individual)"











text \<open>
  An instance for the passes that rewrite the log: the 12-pin frame with a log of 50
  connections that goes back and forth between pins 0 and 3.
\<close>

definition windConnections :: "ThreadConnection list" where
  "windConnections =
     map (\<lambda>k. if even k then \<lparr>fromPin = 0, toPin = 3, color = None\<rparr>
               else \<lparr>fromPin = 3, toPin = 0, color = None\<rparr>) [0 ..< 50]"



section \<open>Backtracking and previews\<close>

text \<open>
  \<^verbatim>\<open>calculateSSIM\<close>: the global structural similarity of the target and the progress
  canvas, over the \<open>n\<close> pixels of the target, with the constants 6.5025 and 58.5225.
\<close>

definition calculateSSIM :: "'a GeneratorState_scheme \<Rightarrow> real" where
  "calculateSSIM st =
     (let xs = pd_data (targetImage st);
          ys = progressImage st;
          n = length xs
      in if n = 0 then 0
         else
           (let meanX = (\<Sum>i\<leftarrow>[0 ..< n]. real_of_int (xs ! i)) / real n;
                meanY = (\<Sum>i\<leftarrow>[0 ..< n]. real_of_int (ys ! i)) / real n;
                varX = (\<Sum>i\<leftarrow>[0 ..< n]. (real_of_int (xs ! i) - meanX)
                                          * (real_of_int (xs ! i) - meanX)) / real n;
                varY = (\<Sum>i\<leftarrow>[0 ..< n]. (real_of_int (ys ! i) - meanY)
                                          * (real_of_int (ys ! i) - meanY)) / real n;
                covXY = (\<Sum>i\<leftarrow>[0 ..< n]. (real_of_int (xs ! i) - meanX)
                                           * (real_of_int (ys ! i) - meanY)) / real n;
                C1 = 6.5025;
                C2 = 58.5225;
                numerator = (2 * meanX * meanY + C1) * (2 * covXY + C2);
                denominator = (meanX * meanX + meanY * meanY + C1) * (varX + varY + C2)
            in numerator / denominator))"

text \<open>
  One pass of the loop of \<^verbatim>\<open>runPerceptualBacktracking\<close> on connection \<open>i\<close>: the line
  is reverted; when the similarity rose by more than 0.001 over the base value the index
  is marked and the canvas stays reverted; else the line is applied again, the connection
  this pushes is popped, and slot \<open>i\<close> is rewritten when the connection had a colour (a
  non-empty string is truthy).
\<close>

definition truthy :: "string option \<Rightarrow> bool" where
  "truthy c = (case c of None \<Rightarrow> False | Some s \<Rightarrow> s \<noteq> [])"

definition backtrackStep ::
  "GenerationParams \<Rightarrow> real \<Rightarrow> (GeneratorState \<times> nat list) option \<Rightarrow> nat
     \<Rightarrow> (GeneratorState \<times> nat list) option" where
  "backtrackStep params baseSSIM acc i =
     (case acc of
        None \<Rightarrow> None
      | Some (st, toRemove) \<Rightarrow>
          (let conn = connections st ! i
           in case revertLine params st (fromPin conn) (toPin conn) of
                None \<Rightarrow> None
              | Some st1 \<Rightarrow>
                  if calculateSSIM st1 > baseSSIM + 0.001 then Some (st1, toRemove @ [i])
                  else
                    (case applyLineGammaCorrected params st1 (fromPin conn) (toPin conn) of
                       None \<Rightarrow> None
                     | Some st2 \<Rightarrow>
                         (let restoredConn = last (connections st2);
                              st3 = st2\<lparr>connections := butlast (connections st2)\<rparr>
                          in Some (if truthy (color conn)
                                   then st3\<lparr>connections :=
                                              (connections st3)
                                                [i := restoredConn\<lparr>color := color conn\<rparr>]\<rparr>
                                   else st3,
                                   toRemove)))))"

text \<open>
  \<^verbatim>\<open>connections.splice(idx, 1)\<close>, and \<^verbatim>\<open>runPerceptualBacktracking\<close>: the last
  \<open>min(100, length)\<close> connections are visited from the last one down, then the marked
  ones are spliced out by decreasing index.
\<close>

definition spliceOut :: "'a list \<Rightarrow> nat \<Rightarrow> 'a list" where
  "spliceOut xs idx = take idx xs @ drop (Suc idx) xs"

definition runPerceptualBacktracking ::
  "GenerationParams \<Rightarrow> GeneratorState \<Rightarrow> GeneratorState option" where
  "runPerceptualBacktracking params st =
     (let baseSSIM = calculateSSIM st;
          len = length (connections st);
          checkCount = min 100 len
      in case foldl (backtrackStep params baseSSIM) (Some (st, []))
                (rev [len - checkCount ..< len]) of
           None \<Rightarrow> None
         | Some (st', toRemove) \<Rightarrow>
             Some (st'\<lparr>connections :=
                         foldl spliceOut (connections st') (rev (sort toRemove))\<rparr>))"

text \<open>
  \<^verbatim>\<open>generatePreviewDataUrl\<close>: the pixels written into the RGB buffer of
  \<open>width * height\<close> triples, one grey triple per canvas value clamped to a byte (the buffer
  starts zeroed). The bitmap encoding of \<^verbatim>\<open>generateSyncPreview\<close> that follows is a fixed
  function of this buffer and is not modelled.
\<close>

definition generatePreviewDataUrl :: "'a GeneratorState_scheme \<Rightarrow> rgb list" where
  "generatePreviewDataUrl st =
     map (\<lambda>i. if i < length (progressImage st)
               then (let val = max 0 (min 255 (progressImage st ! i)) in (val, val, val))
               else (0, 0, 0))
         [0 ..< nat (pd_width (targetImage st) * pd_height (targetImage st))]"

text \<open>
  An instance for the previews: the default parameters with opacity 0.03, the small state
  after the line from pin 0 to pin 1 has been drawn at that opacity, and that state
  after the line has been reverted and its connection removed.
\<close>

definition thinParams :: GenerationParams where
  "thinParams = defaultParams\<lparr>threadOpacity := 0.03\<rparr>"

definition drawnState :: GeneratorState where
  "drawnState =
     tinyState\<lparr> progressImage := [251, 251, 255, 255],
                densityImage := [0.03, 0.03, 0, 0],
                connections := [\<lparr>fromPin = 0, toPin = 1, color = None\<rparr>],
                pinUsageCount := [1, 1],
                currentPin := 1,
                lineCache := [(0, 1, 1) \<mapsto> [0, 1]],
                overdrawMap := [1, 1, 0, 0] \<rparr>"

definition cleanedState :: GeneratorState where
  "cleanedState =
     drawnState\<lparr> progressImage := [254, 254, 255, 255],
                 densityImage := [0, 0, 0, 0],
                 connections := [],
                 pinUsageCount := [0, 0],
                 overdrawMap := [0, 0, 0, 0] \<rparr>"

text \<open>
  The colour of a connection in \<^verbatim>\<open>generateColorPreviewDataUrl\<close>:
  \<^verbatim>\<open>conn.color || "#000000"\<close>, then \<^verbatim>\<open>parseInt(color.slice(1, 3), 16)\<close> and the same for
  the next two pairs. \<^verbatim>\<open>parseInt\<close> reads the longest prefix of hexadecimal digits; \<open>None\<close>
  is \<^verbatim>\<open>NaN\<close>. Signs, blanks and a \<^verbatim>\<open>0x\<close> prefix are not modelled.
\<close>

definition hexDigit :: "char \<Rightarrow> nat option" where
  "hexDigit c = map_of (zip ''0123456789abcdef'' [0 ..< 16] @ zip ''ABCDEF'' [10 ..< 16]) c"

definition parseInt16 :: "string \<Rightarrow> int option" where
  "parseInt16 s =
     (let ds = takeWhile (\<lambda>c. hexDigit c \<noteq> None) s
      in if ds = [] then None
         else Some (foldl (\<lambda>v c. 16 * v + int (case hexDigit c of Some d \<Rightarrow> d | None \<Rightarrow> 0))
                      0 ds))"

definition js_slice :: "nat \<Rightarrow> nat \<Rightarrow> string \<Rightarrow> string" where
  "js_slice a b s = take (b - a) (drop a s)"

definition parseHexColor :: "string \<Rightarrow> rgb option" where
  "parseHexColor s =
     (case parseInt16 (js_slice 1 3 s) of
        None \<Rightarrow> None
      | Some r \<Rightarrow>
          (case parseInt16 (js_slice 3 5 s) of
             None \<Rightarrow> None
           | Some g \<Rightarrow>
               (case parseInt16 (js_slice 5 7 s) of
                  None \<Rightarrow> None
                | Some b \<Rightarrow> Some (r, g, b))))"

definition storedColor :: "ThreadConnection \<Rightarrow> string" where
  "storedColor conn =
     (case color conn of
        None \<Rightarrow> ''#000000''
      | Some s \<Rightarrow> if s = [] then ''#000000'' else s)"

text \<open>
  \<^verbatim>\<open>generateColorPreviewDataUrl\<close>: a white RGB buffer, then every connection of the log
  in order. A connection with a pin outside \<^verbatim>\<open>pins\<close> is skipped. Each pixel of the line
  is blended per channel in linear light,
  \<^verbatim>\<open>curr * (1 - opacity) + thread * opacity * curr\<close>, at \<^verbatim>\<open>params.threadOpacity\<close>, under
  the guard \<^verbatim>\<open>pixelIdx + 2 < rgbData.length\<close>. The result is the buffer; \<open>None\<close> is a
  colour that does not parse or a rasterizer that does not return.
\<close>

definition previewBlend :: "int \<Rightarrow> real \<Rightarrow> int \<Rightarrow> int" where
  "previewBlend threadChannel opacity current =
     (let currLinear = toLinear current;
          threadLinear = toLinear threadChannel;
          blended = currLinear * (1 - opacity) + threadLinear * opacity * currLinear
      in max 0 (min 255 (round (blended powr (1 / 2.2) * 255))))"

definition previewPixel :: "rgb \<Rightarrow> real \<Rightarrow> rgb list \<Rightarrow> int \<Rightarrow> rgb list" where
  "previewPixel c opacity canvas idx =
     (case c of (r, g, b) \<Rightarrow>
        if 0 \<le> idx \<and> nat idx < length canvas then
          (case canvas ! nat idx of (currR, currG, currB) \<Rightarrow>
             canvas[nat idx := (previewBlend r opacity currR, previewBlend g opacity currG,
                                previewBlend b opacity currB)])
        else canvas)"

definition previewLine ::
  "GenerationParams \<Rightarrow> 'a GeneratorState_scheme \<Rightarrow> (rgb list \<times> lineCache) option
     \<Rightarrow> ThreadConnection \<Rightarrow> (rgb list \<times> lineCache) option" where
  "previewLine params st acc conn =
     (case acc of
        None \<Rightarrow> None
      | Some (canvas, cache) \<Rightarrow>
          if length (pins st) \<le> fromPin conn \<or> length (pins st) \<le> toPin conn
          then Some (canvas, cache)
          else
            (case parseHexColor (storedColor conn) of
               None \<Rightarrow> None
             | Some c \<Rightarrow>
                 (case getLinePixels (pins st) (pd_width (targetImage st))
                         (pd_height (targetImage st)) (threadWidth params) cache
                         (fromPin conn) (toPin conn) of
                    None \<Rightarrow> None
                  | Some (pixels, cache') \<Rightarrow>
                      Some (foldl (previewPixel c (threadOpacity params)) canvas pixels, cache'))))"

definition generateColorPreviewDataUrl ::
  "GenerationParams \<Rightarrow> 'a GeneratorState_scheme \<Rightarrow> rgb list option" where
  "generateColorPreviewDataUrl params st =
     map_option fst
       (foldl (previewLine params st)
          (Some (replicate (nat (pd_width (targetImage st) * pd_height (targetImage st)))
                   (255, 255, 255),
                 lineCache st))
          (connections st))"

text \<open>
  The replay of a log, from what a result holds: the pins, the image size, the thread
  width and opacity of the parameters and the connections with their stored colours. It
  starts from a white canvas and composites the rasterized line of each connection in
  order with the subtractive per-channel blend of the compositor
  (\<^const>\<open>blendSubtractive\<close>, as in \<^verbatim>\<open>applyColoredLine\<close>), without any cache.
\<close>

definition compositePixel :: "rgb \<Rightarrow> real \<Rightarrow> rgb list \<Rightarrow> int \<Rightarrow> rgb list" where
  "compositePixel c opacity canvas idx =
     (case c of (cr, cg, cb) \<Rightarrow>
        (case canvas ! nat idx of (r, g, b) \<Rightarrow>
           canvas[nat idx := (blendSubtractive cr opacity r, blendSubtractive cg opacity g,
                              blendSubtractive cb opacity b)]))"

definition replayLine ::
  "Pin list \<Rightarrow> int \<Rightarrow> int \<Rightarrow> real \<Rightarrow> real \<Rightarrow> rgb list option \<Rightarrow> ThreadConnection
     \<Rightarrow> rgb list option" where
  "replayLine pns width height tw opacity acc conn =
     (case acc of
        None \<Rightarrow> None
      | Some canvas \<Rightarrow>
          (case parseHexColor (storedColor conn) of
             None \<Rightarrow> None
           | Some c \<Rightarrow>
               (case rasterLine (pns ! fromPin conn) (pns ! toPin conn) width height
                       (threadWidthPx tw) of
                  None \<Rightarrow> None
                | Some pixels \<Rightarrow> Some (foldl (compositePixel c opacity) canvas pixels))))"

definition replay ::
  "GenerationParams \<Rightarrow> Pin list \<Rightarrow> int \<Rightarrow> int \<Rightarrow> ThreadConnection list \<Rightarrow> rgb list option" where
  "replay params pns width height conns =
     foldl (replayLine pns width height (threadWidth params) (threadOpacity params))
       (Some (replicate (nat (width * height)) (255, 255, 255))) conns"

text \<open>
  A line cache is consistent when each entry is the rasterization of its key. A state is
  \<open>log_ok\<close> when its cache is consistent and every connection of its log joins two
  existing pins.
\<close>

definition cache_consistent :: "Pin list \<Rightarrow> int \<Rightarrow> int \<Rightarrow> lineCache \<Rightarrow> bool" where
  "cache_consistent pns width height cache \<longleftrightarrow>
     (\<forall>a b k ps. cache (a, b, k) = Some ps \<longrightarrow>
        rasterLine (pns ! a) (pns ! b) width height k = Some ps)"

definition log_ok :: "'a GeneratorState_scheme \<Rightarrow> bool" where
  "log_ok st \<longleftrightarrow>
     cache_consistent (pins st) (pd_width (targetImage st)) (pd_height (targetImage st))
       (lineCache st) \<and>
     (\<forall>c\<in>set (connections st). fromPin c < length (pins st) \<and> toPin c < length (pins st))"

text \<open>The small state with a log of one magenta connection.\<close>

definition magentaState :: GeneratorState where
  "magentaState =
     tinyState\<lparr>connections := [\<lparr>fromPin = 0, toPin = 1, color = Some ''#E91E63''\<rparr>]\<rparr>"


section \<open>Verified properties\<close>

subsection \<open>Termination and bounds of the Bresenham rasterizers\<close>

lemma step_arith:
  fixes rx ry dx dy err :: int
  assumes "0 \<le> rx" "rx \<le> dx" "0 \<le> ry" "ry \<le> dy"
    and err: "err = dx - dy + rx * dy - ry * dx"
    and ne: "\<not> (rx = 0 \<and> ry = 0)"
  shows "(2 * err > - dy \<longrightarrow> 1 \<le> rx) \<and> (2 * err < dx \<longrightarrow> 1 \<le> ry) \<and> (2 * err > - dy \<or> 2 * err < dx)"
proof (intro conjI impI)
  assume a: "2 * err > - dy"
  show "1 \<le> rx"
  proof (rule ccontr)
    assume "\<not> 1 \<le> rx"
    with assms have rx0: "rx = 0" and ry1: "1 \<le> ry" by auto
    have "1 * dx \<le> ry * dx" using ry1 assms by (intro mult_right_mono) auto
    with err rx0 have "err \<le> - dy" by simp
    with a assms show False by linarith
  qed
next
  assume a: "2 * err < dx"
  show "1 \<le> ry"
  proof (rule ccontr)
    assume "\<not> 1 \<le> ry"
    with assms have ry0: "ry = 0" and rx1: "1 \<le> rx" by auto
    have "1 * dy \<le> rx * dy" using rx1 assms by (intro mult_right_mono) auto
    with err ry0 have "dx \<le> err" by simp
    with a assms show False by linarith
  qed
next
  show "2 * err > - dy \<or> 2 * err < dx"
  proof (rule ccontr)
    assume "\<not> (2 * err > - dy \<or> 2 * err < dx)"
    then have "dx \<le> - dy" by linarith
    with assms show False by auto
  qed
qed

lemma bres_step:
  assumes inv: "bres_inv c x y err" and ne: "\<not> (x = lc_x1 c \<and> y = lc_y1 c)"
  shows "bres_inv c (next_x c x err) (next_y c y err) (next_err c err)"
    and "rem_x c (next_x c x err) + rem_y c (next_y c y err) < rem_x c x + rem_y c y"
proof -
  let ?rx = "rem_x c x" and ?ry = "rem_y c y"
  from inv have sx: "lc_sx c = 1 \<or> lc_sx c = - 1" and sy: "lc_sy c = 1 \<or> lc_sy c = - 1"
    and b: "0 \<le> ?rx" "?rx \<le> lc_dx c" "0 \<le> ?ry" "?ry \<le> lc_dy c"
    and e: "err = lc_dx c - lc_dy c + ?rx * lc_dy c - ?ry * lc_dx c"
    by (auto simp: bres_inv_def)
  have ne': "\<not> (?rx = 0 \<and> ?ry = 0)"
    using ne sx sy by (auto simp: rem_x_def rem_y_def)
  note A = step_arith[OF b e ne']
  have rx': "rem_x c (next_x c x err) = (if 2 * err > - lc_dy c then ?rx - 1 else ?rx)"
    using sx by (auto simp: rem_x_def next_x_def algebra_simps)
  have ry': "rem_y c (next_y c y err) = (if 2 * err < lc_dx c then ?ry - 1 else ?ry)"
    using sy by (auto simp: rem_y_def next_y_def algebra_simps)
  show "bres_inv c (next_x c x err) (next_y c y err) (next_err c err)"
    unfolding bres_inv_def rx' ry'
    using sx sy b A e by (auto simp: next_err_def Let_def algebra_simps)
  show "rem_x c (next_x c x err) + rem_y c (next_y c y err) < ?rx + ?ry"
    unfolding rx' ry' using A by auto
qed

lemma bres_measure_decreases:
  assumes "bres_inv c x y err" "\<not> (x = lc_x1 c \<and> y = lc_y1 c)"
  shows "nat (rem_x c (next_x c x err) + rem_y c (next_y c y err)) < nat (rem_x c x + rem_y c y)"
proof -
  note st = bres_step[OF assms]
  have "0 \<le> rem_x c (next_x c x err) + rem_y c (next_y c y err)"
    using st(1) by (auto simp: bres_inv_def)
  with st(2) show ?thesis by linarith
qed

lemma in_image_idx:
  assumes "in_image c x y"
  shows "0 \<le> y * lc_width c + x \<and> y * lc_width c + x < lc_width c * lc_height c"
proof -
  from assms have x: "0 \<le> x" "x < lc_width c" and y: "0 \<le> y" "y + 1 \<le> lc_height c"
    by (auto simp: in_image_def)
  have w: "0 \<le> lc_width c" using x by linarith
  have "0 \<le> y * lc_width c" using y w by simp
  moreover have "(y + 1) * lc_width c \<le> lc_height c * lc_width c"
    using y w by (intro mult_right_mono) auto
  ultimately show ?thesis using x by (simp add: algebra_simps)
qed

lemma idx_ok_snoc:
  "idx_ok (lc_width c) (lc_height c) ps \<Longrightarrow> in_image c x y \<Longrightarrow>
   idx_ok (lc_width c) (lc_height c) (ps @ [y * lc_width c + x])"
  using in_image_idx[of c x y] by (auto simp: idx_ok_def)

lemma idx_ok_set_add:
  "idx_ok (lc_width c) (lc_height c) ps \<Longrightarrow> in_image c x y \<Longrightarrow>
   idx_ok (lc_width c) (lc_height c) (set_add ps (y * lc_width c + x))"
  using in_image_idx[of c x y] by (auto simp: idx_ok_def set_add_def)

lemma idx_ok_thick_add:
  assumes "idx_ok (lc_width c) (lc_height c) ps"
  shows "idx_ok (lc_width c) (lc_height c) (thick_add c perpX perpY halfWidth x0 y0 ps)"
proof -
  have "idx_ok (lc_width c) (lc_height c)
          (foldl (\<lambda>s w. if w = 0 then s
                 else (let px = round (real_of_int x0 + perpX * w);
                           py = round (real_of_int y0 + perpY * w)
                       in if in_image c px py then set_add s (py * lc_width c + px) else s))
              ps ws)" for ws
    using assms
    by (induction ws arbitrary: ps) (auto simp: Let_def idx_ok_set_add)
  then show ?thesis by (simp add: thick_add_def assms)
qed

lemma bresenhamLine_loop_total:
  assumes "bres_inv c x y err" "idx_ok (lc_width c) (lc_height c) pixels"
  shows "\<exists>ps. bresenhamLine_loop c x y err pixels = Some ps \<and> idx_ok (lc_width c) (lc_height c) ps"
  using assms
proof (induction "nat (rem_x c x + rem_y c y)" arbitrary: x y err pixels rule: less_induct)
  case less
  let ?pixels' = "if in_image c x y then pixels @ [y * lc_width c + x] else pixels"
  have ok': "idx_ok (lc_width c) (lc_height c) ?pixels'"
    using less.prems(2) by (simp add: idx_ok_snoc)
  show ?case
  proof (cases "x = lc_x1 c \<and> y = lc_y1 c")
    case True
    then show ?thesis using ok'
      by (subst bresenhamLine_loop.simps) (simp add: Let_def)
  next
    case False
    from less.hyps[OF bres_measure_decreases[OF less.prems(1) False] bres_step(1)[OF less.prems(1) False] ok']
    obtain ps where "bresenhamLine_loop c (next_x c x err) (next_y c y err) (next_err c err) ?pixels' = Some ps"
      "idx_ok (lc_width c) (lc_height c) ps" by blast
    moreover from False have eq: "(x = lc_x1 c \<and> y = lc_y1 c) = False" by simp
    have "bresenhamLine_loop c x y err pixels =
          bresenhamLine_loop c (next_x c x err) (next_y c y err) (next_err c err) ?pixels'"
      by (subst bresenhamLine_loop.simps) (simp only: Let_def eq if_False)
    ultimately show ?thesis by simp
  qed
qed

lemma getLinePixels_loop_total:
  assumes "bres_inv c x y err" "idx_ok (lc_width c) (lc_height c) pixelSet"
    "idx_ok (lc_width c) (lc_height c) corePixels"
  shows "\<exists>ps cs. getLinePixels_loop c perpX perpY halfWidth x y err pixelSet corePixels = Some (ps, cs)
           \<and> idx_ok (lc_width c) (lc_height c) ps \<and> idx_ok (lc_width c) (lc_height c) cs"
  using assms
proof (induction "nat (rem_x c x + rem_y c y)" arbitrary: x y err pixelSet corePixels rule: less_induct)
  case less
  let ?core = "if in_image c x y then corePixels @ [y * lc_width c + x] else corePixels"
  let ?set1 = "if in_image c x y then set_add pixelSet (y * lc_width c + x) else pixelSet"
  let ?set' = "thick_add c perpX perpY halfWidth x y ?set1"
  have okc: "idx_ok (lc_width c) (lc_height c) ?core"
    using less.prems(3) by (simp add: idx_ok_snoc)
  have "idx_ok (lc_width c) (lc_height c) ?set1"
    using less.prems(2) by (simp add: idx_ok_set_add)
  then have oks: "idx_ok (lc_width c) (lc_height c) ?set'"
    by (rule idx_ok_thick_add)
  show ?case
  proof (cases "x = lc_x1 c \<and> y = lc_y1 c")
    case True
    then show ?thesis using okc oks
      by (subst getLinePixels_loop.simps) (simp add: Let_def)
  next
    case False
    from less.hyps[OF bres_measure_decreases[OF less.prems(1) False] bres_step(1)[OF less.prems(1) False] oks okc]
    obtain ps cs where "getLinePixels_loop c perpX perpY halfWidth (next_x c x err) (next_y c y err) (next_err c err) ?set' ?core = Some (ps, cs)"
      "idx_ok (lc_width c) (lc_height c) ps" "idx_ok (lc_width c) (lc_height c) cs" by blast
    moreover from False have eq: "(x = lc_x1 c \<and> y = lc_y1 c) = False" by simp
    have "getLinePixels_loop c perpX perpY halfWidth x y err pixelSet corePixels =
          getLinePixels_loop c perpX perpY halfWidth (next_x c x err) (next_y c y err) (next_err c err) ?set' ?core"
      by (subst getLinePixels_loop.simps) (simp only: Let_def eq if_False)
    ultimately show ?thesis by simp
  qed
qed

lemma bres_inv_init:
  "bres_inv (mk_line_consts x0 y0 x1 y1 w h) x0 y0
     (lc_dx (mk_line_consts x0 y0 x1 y1 w h) - lc_dy (mk_line_consts x0 y0 x1 y1 w h))"
  by (auto simp: bres_inv_def mk_line_consts_def rem_x_def rem_y_def algebra_simps abs_if)

lemma mk_line_consts_size [simp]:
  "lc_width (mk_line_consts x0 y0 x1 y1 w h) = w" "lc_height (mk_line_consts x0 y0 x1 y1 w h) = h"
  by (simp_all add: mk_line_consts_def)

lemma idx_ok_Nil [simp]: "idx_ok w h []"
  by (simp add: idx_ok_def)

lemma bresenhamLine_total:
  "\<exists>ps. bresenhamLine x0 y0 x1 y1 w h = Some ps \<and> idx_ok w h ps"
proof -
  let ?c = "mk_line_consts x0 y0 x1 y1 w h"
  have "idx_ok (lc_width ?c) (lc_height ?c) []" by simp
  from bresenhamLine_loop_total[OF bres_inv_init this]
  show ?thesis by (simp add: bresenhamLine_def Let_def)
qed

lemma cache_ok_upd:
  "cache_ok w h cache \<Longrightarrow> idx_ok w h ps \<Longrightarrow> cache_ok w h (cache(k \<mapsto> ps))"
  by (auto simp: cache_ok_def ran_def split: if_splits)

lemma map_option_total:
  "\<exists>r. X = Some r \<and> P (f r) \<Longrightarrow> \<exists>ps. map_option f X = Some ps \<and> P ps"
  by auto

lemma rasterLine_total:
  "\<exists>ps. rasterLine from to w h k = Some ps \<and> idx_ok w h ps"
proof -
  let ?c = "mk_line_consts (pin_x from) (pin_y from) (pin_x to) (pin_y to) w h"
  have L: "\<exists>r. getLinePixels_loop ?c perpX perpY halfWidth (pin_x from) (pin_y from)
                 (lc_dx ?c - lc_dy ?c) [] [] = Some r \<and> idx_ok w h (linePixels_of r)"
    for perpX perpY halfWidth
  proof -
    have "idx_ok (lc_width ?c) (lc_height ?c) []" by simp
    from getLinePixels_loop_total[OF bres_inv_init this this]
    show ?thesis by (fastforce simp: linePixels_of_def)
  qed
  show ?thesis
    unfolding rasterLine_def Let_def by (rule map_option_total) (rule L)
qed

lemma getLinePixels_total:
  assumes "cache_ok w h cache"
  shows "\<exists>ps cache'. getLinePixels pns w h tw cache a b = Some (ps, cache')
            \<and> idx_ok w h ps \<and> cache_ok w h cache'"
proof (cases "cache (a, b, threadWidthPx tw)")
  case (Some ps)
  then have "idx_ok w h ps" using assms by (auto simp: cache_ok_def ran_def)
  with Some assms show ?thesis by (simp add: getLinePixels_def)
next
  case None
  obtain ps where "rasterLine (pns ! a) (pns ! b) w h (threadWidthPx tw) = Some ps" "idx_ok w h ps"
    using rasterLine_total by blast
  with None assms show ?thesis
    by (simp add: getLinePixels_def cache_ok_upd)
qed

text \<open>
  Claim C10. Both Bresenham rasterizers terminate for all integer end points and every
  image size (the model returns \<open>Some\<close>, where \<open>None\<close> would be a loop that never
  leaves), and every pixel index they return satisfies \<open>0 \<le> idx < width * height\<close>.
  Nothing is assumed about the pins: they may coincide, and they may lie outside the
  image. For \<^verbatim>\<open>getLinePixels\<close> the result may come from the line cache, so the cache is
  required to hold in-bounds lists only, and it still does after the call.
\<close>

theorem rasterizers_terminate_in_bounds:
  "(\<exists>ps. bresenhamLine x0 y0 x1 y1 w h = Some ps \<and> (\<forall>i\<in>set ps. 0 \<le> i \<and> i < w * h)) \<and>
   (cache_ok w h cache \<longrightarrow>
      (\<exists>ps cache'. getLinePixels pns w h tw cache a b = Some (ps, cache') \<and>
          (\<forall>i\<in>set ps. 0 \<le> i \<and> i < w * h) \<and> cache_ok w h cache'))"
  using bresenhamLine_total[of x0 y0 x1 y1 w h] getLinePixels_total[of w h cache pns tw a b]
  by (simp add: idx_ok_def)

theorem rasterizers_terminate_in_bounds_witness:
  "cache_ok 3 3 Map.empty \<and>
   (\<exists>ps. bresenhamLine 0 0 2 1 3 3 = Some ps \<and> (\<forall>i\<in>set ps. 0 \<le> i \<and> i < 3 * 3)) \<and>
   (\<exists>ps cache'.
      getLinePixels [\<lparr>pin_index = 0, pin_x = 7, pin_y = 1\<rparr>] 3 3 (2 / 5) Map.empty 0 0
        = Some (ps, cache') \<and>
      (\<forall>i\<in>set ps. 0 \<le> i \<and> i < 3 * 3) \<and> cache_ok 3 3 cache')"
  using rasterizers_terminate_in_bounds
          [of 0 0 2 1 3 3 Map.empty "[\<lparr>pin_index = 0, pin_x = 7, pin_y = 1\<rparr>]" "2 / 5" 0 0]
  by (simp add: cache_ok_def)

subsection \<open>The adaptive pin skip\<close>

text \<open>
  Claim C6 as stated says that the value returned by \<^verbatim>\<open>getEffectiveMinSkip\<close> is in all
  cases at least the configured \<^verbatim>\<open>min_pin_skip\<close>. With an endpoint in the face region and
  a base skip of 5 the function returns 2.
\<close>

theorem effective_min_skip_floor_counterexample:
  "getEffectiveMinSkip Face Background (Some High) (Some 5) = 2 \<and>
   \<not> (5 \<le> getEffectiveMinSkip Face Background (Some High) (Some 5))"
  by (simp add: getEffectiveMinSkip_def)

text \<open>
  Claim C6, amended. The region policies are face 2, body 4 and background 6, 7 or 8 for
  the presets high, balanced and fast (8 also without a preset). With an endpoint in the
  face region the result is 2 whatever the base skip is. Otherwise it is the larger of the
  two endpoint policies, and it is raised to the base skip only when a base skip is passed.
\<close>

theorem getEffectiveMinSkip_amended:
  "(a = Face \<or> b = Face \<longrightarrow> getEffectiveMinSkip a b q base = 2) \<and>
   (a \<noteq> Face \<and> b \<noteq> Face \<longrightarrow>
      getEffectiveMinSkip a b q None
        = max (getMinPinSkipForRegion a q) (getMinPinSkipForRegion b q) \<and>
      getEffectiveMinSkip a b q (Some m)
        = max (max (getMinPinSkipForRegion a q) (getMinPinSkipForRegion b q)) m \<and>
      m \<le> getEffectiveMinSkip a b q (Some m)) \<and>
   getMinPinSkipForRegion Face q = 2 \<and>
   getMinPinSkipForRegion Body q = 4 \<and>
   getMinPinSkipForRegion Background (Some High) = 6 \<and>
   getMinPinSkipForRegion Background (Some Balanced) = 7 \<and>
   getMinPinSkipForRegion Background (Some Fast) = 8 \<and>
   getMinPinSkipForRegion Background None = 8"
  by (simp add: getEffectiveMinSkip_def Let_def)

theorem getEffectiveMinSkip_amended_witness:
  "Body \<noteq> Face \<and> Background \<noteq> Face \<and>
   getEffectiveMinSkip Body Background (Some Balanced) None = 7 \<and>
   getEffectiveMinSkip Body Background (Some Balanced) (Some 10) = 10 \<and>
   getEffectiveMinSkip Face Body (Some Balanced) (Some 10) = 2"
  using getEffectiveMinSkip_amended [of Body Background "Some Balanced" "Some 10" 10]
        getEffectiveMinSkip_amended [of Face Body "Some Balanced" "Some 10" 10]
  by simp

subsection \<open>Stage policies\<close>



subsection \<open>The density map\<close>









lemma toLinear_unit:
  assumes "0 \<le> c" "c \<le> 255"
  shows "0 \<le> toLinear c \<and> toLinear c \<le> 1"
proof -
  have "(real_of_int c / 255) powr 2.2 \<le> 1 powr 2.2"
    using assms by (intro powr_mono2) auto
  then show ?thesis by (simp add: toLinear_def)
qed




lemma recordConnection_density [simp]:
  "densityImage (recordConnection s a b col) = densityImage s"
  by (simp add: recordConnection_def)







subsection \<open>The LAB colour score\<close>

lemma tiny_rasterLine: "rasterLine (tinyPins ! 0) (tinyPins ! 1) 2 2 1 = Some [0, 1]"
  by (simp add: rasterLine_def tinyPins_def mk_line_consts_def getLinePixels_loop.simps Let_def
        next_x_def next_y_def next_err_def in_image_def thick_add_def set_add_def linePixels_of_def)

lemma threadWidthPx_default: "threadWidthPx (threadWidth defaultParams) = 1"
  by (simp add: threadWidthPx_def defaultParams_def round_def)





subsection \<open>Pin placement\<close>















subsection \<open>Preprocessing on rejected bytes\<close>

lemma preprocessImage_fallback:
  "sharp_metadata sharp bs = None \<Longrightarrow>
   preprocessImage sharp params bs = fallbackGradient (min (frameSize params) 512)"
  by (simp add: preprocessImage_def Let_def)

text \<open>
  Claim C7 asks that malformed bytes give a deterministic fallback gradient of the
  requested size in both preprocessing paths. On bytes that the image library rejects the
  grayscale path returns the radial gradient, which depends on the size alone. The colour
  path fills the image with \<^verbatim>\<open>Math.floor(Math.random() * 128)\<close>: on the same bytes and
  the same crop, draws that are all 0 give a black image and draws that are all 1/2 give
  grey 64, so two runs differ.
\<close>

theorem color_fallback_random:
  "preprocessImage rejectingSharp defaultParams [1, 2, 3] = fallbackGradient 500 \<and>
   cpd_data (preprocessColorImage rejectingSharp (\<lambda>_. 0) defaultParams [1, 2, 3] 2 2)
     = [(0, 0, 0), (0, 0, 0), (0, 0, 0), (0, 0, 0)] \<and>
   cpd_data (preprocessColorImage rejectingSharp (\<lambda>_. 1 / 2) defaultParams [1, 2, 3] 2 2)
     = [(64, 64, 64), (64, 64, 64), (64, 64, 64), (64, 64, 64)] \<and>
   preprocessColorImage rejectingSharp (\<lambda>_. 0) defaultParams [1, 2, 3] 2 2
     \<noteq> preprocessColorImage rejectingSharp (\<lambda>_. 1 / 2) defaultParams [1, 2, 3] 2 2"
proof -
  have u: "[0 ..< 4] = [0, 1, 2, 3::nat]" by (simp add: upt_rec)
  have a: "cpd_data (preprocessColorImage rejectingSharp (\<lambda>_. 0) defaultParams [1, 2, 3] 2 2)
     = [(0, 0, 0), (0, 0, 0), (0, 0, 0), (0, 0, 0)]"
    by (simp add: preprocessColorImage_def rejectingSharp_def colorFallback_def Let_def u)
  have b: "cpd_data (preprocessColorImage rejectingSharp (\<lambda>_. 1 / 2) defaultParams [1, 2, 3] 2 2)
     = [(64, 64, 64), (64, 64, 64), (64, 64, 64), (64, 64, 64)]"
    by (simp add: preprocessColorImage_def rejectingSharp_def colorFallback_def Let_def u)
  have c: "preprocessImage rejectingSharp defaultParams [1, 2, 3] = fallbackGradient 500"
    by (simp add: preprocessImage_def rejectingSharp_def defaultParams_def Let_def)
  from a b have "cpd_data (preprocessColorImage rejectingSharp (\<lambda>_. 0) defaultParams [1, 2, 3] 2 2)
     \<noteq> cpd_data (preprocessColorImage rejectingSharp (\<lambda>_. 1 / 2) defaultParams [1, 2, 3] 2 2)"
    by simp
  then have "preprocessColorImage rejectingSharp (\<lambda>_. 0) defaultParams [1, 2, 3] 2 2
     \<noteq> preprocessColorImage rejectingSharp (\<lambda>_. 1 / 2) defaultParams [1, 2, 3] 2 2"
    by metis
  with a b c show ?thesis by simp
qed


subsection \<open>The connection log under the three-stage driver\<close>


































subsection \<open>Pin skip of the connections\<close>








subsection \<open>Continuity of the thread\<close>

lemma rebuildPixel_fields:
  "connections (foldl (rebuildPixel opacity) s ps) = connections s \<and>
   currentPin (foldl (rebuildPixel opacity) s ps) = currentPin s \<and>
   pins (foldl (rebuildPixel opacity) s ps) = pins s \<and>
   lineCache (foldl (rebuildPixel opacity) s ps) = lineCache s \<and>
   targetImage (foldl (rebuildPixel opacity) s ps) = targetImage s"
  by (induction ps arbitrary: s) (simp_all add: rebuildPixel_def)




lemma setToPin_length [simp]: "length (setToPin L i p) = length L"
  by (simp add: setToPin_def)


















lemma windConnections_length [simp]: "length windConnections = 50"
  by (simp add: windConnections_def)










subsection \<open>Replay of the log and the preview\<close>

lemma gamma_root_power:
  fixes x :: real
  assumes "0 < x"
  shows "(x powr (5 / 11)) ^ 11 = x ^ 5"
proof -
  have "0 < x powr (5 / 11)" using assms by simp
  then have "(x powr (5 / 11)) ^ 11 = (x powr (5 / 11)) powr 11"
    by (simp only: powr_numeral)
  also have "\<dots> = x powr 5" by (simp add: powr_powr)
  also have "\<dots> = x ^ 5" using assms by (simp only: powr_numeral)
  finally show ?thesis .
qed

lemma gamma_cancel:
  fixes a t :: real
  assumes "0 < a" "0 < t"
  shows "(a powr (11 / 5) / t) powr (5 / 11) = a / t powr (5 / 11)"
  using assms by (simp add: powr_divide powr_powr)

lemma gamma_097:
  "502 / 509 < (97 / 100 :: real) powr (5 / 11)" "(97 / 100 :: real) powr (5 / 11) < 503 / 510"
proof -
  let ?y = "(97 / 100 :: real) powr (5 / 11)"
  have p: "?y ^ 11 = (97 / 100) ^ 5" by (rule gamma_root_power) simp
  have "(502 / 509 :: real) ^ 11 < ?y ^ 11" unfolding p by (simp add: power_divide)
  then show "502 / 509 < ?y" by (rule power_less_imp_less_base) simp
  have "?y ^ 11 < (503 / 510 :: real) ^ 11" unfolding p by (simp add: power_divide)
  then show "?y < 503 / 510" by (rule power_less_imp_less_base) simp
qed

lemma round_eqI:
  assumes "real_of_int z - 1 / 2 \<le> x" "x < real_of_int z + 1 / 2"
  shows "round x = z"
  unfolding round_def using assms by (intro floor_unique) simp_all

lemma blendMono_thin_white: "blendMono 0.03 255 = 251"
proof -
  let ?y = "(97 / 100 :: real) powr (5 / 11)"
  have "round (?y * 255) = 251"
    using gamma_097 by (intro round_eqI) simp_all
  then show ?thesis by (simp add: blendMono_def Let_def)
qed

lemma revertMono_thin_251: "revertMono 0.03 251 = 254"
proof -
  let ?y = "(97 / 100 :: real) powr (5 / 11)"
  let ?a = "251 / 255 :: real"
  have ypos: "0 < ?y" by simp
  have y22: "?y powr (11 / 5) = 97 / 100" by (simp add: powr_powr)
  have "?a \<le> ?y" using gamma_097(1) by simp
  then have "?a powr (11 / 5) \<le> ?y powr (11 / 5)" by (intro powr_mono2) simp_all
  then have le: "?a powr (11 / 5) / (97 / 100) \<le> 1" unfolding y22 by simp
  have "(?a powr (11 / 5) / (97 / 100)) powr (5 / 11) = ?a / ?y"
    by (rule gamma_cancel) simp_all
  moreover have "round (?a / ?y * 255) = 254"
  proof (intro round_eqI)
    have "507 / 2 * ?y \<le> 251" using gamma_097(2) by simp
    then show "real_of_int 254 - 1 / 2 \<le> ?a / ?y * 255" using ypos by (simp add: field_simps)
    have "251 < 509 / 2 * ?y" using gamma_097(1) by simp
    then show "?a / ?y * 255 < real_of_int 254 + 1 / 2" using ypos by (simp add: field_simps)
  qed
  ultimately have "round ((?a powr (11 / 5) / (97 / 100)) powr (5 / 11) * 255) = 254" by simp
  moreover have "min 1 (?a powr (11 / 5) / (97 / 100)) = ?a powr (11 / 5) / (97 / 100)"
    using le by simp
  ultimately show ?thesis by (simp add: revertMono_def Let_def)
qed

lemma thin_width: "threadWidthPx (threadWidth thinParams) = 1"
  using threadWidthPx_default by (simp add: thinParams_def defaultParams_def)

lemma tinyState_fields:
  "targetImage tinyState = tinyImage" "pins tinyState = tinyPins"
  "progressImage tinyState = [255, 255, 255, 255]" "densityImage tinyState = [0, 0, 0, 0]"
  "overdrawMap tinyState = [0, 0, 0, 0]" "pinUsageCount tinyState = [0, 0]"
  "connections tinyState = []" "currentPin tinyState = 0" "lineCache tinyState = Map.empty"
  by (simp_all add: tinyState_def initialState_def tinyImage_def tinyPins_def Let_def
        numeral_eq_Suc)

lemma tiny_first_line: "statePixels thinParams tinyState 0 1 = Some ([0, 1], [(0, 1, 1) \<mapsto> [0, 1]])"
  using tiny_rasterLine
  by (simp add: statePixels_def getLinePixels_def thin_width tinyState_fields tinyImage_def
        tinyPins_def)

lemma tiny_cached_line:
  "statePixels thinParams drawnState 0 1 = Some ([0, 1], [(0, 1, 1) \<mapsto> [0, 1]])"
  by (simp add: statePixels_def getLinePixels_def thin_width drawnState_def)

lemma tiny_draw: "applyLineWithColor thinParams tinyState 0 1 None = Some drawnState"
  using tiny_first_line blendMono_thin_white
  by (simp add: applyLineWithColor_def applyPixel_def recordConnection_def drawnState_def
        tinyState_fields incr_def densityForward_def thinParams_def)


lemma upt4: "[0 ..< 4] = [0, 1, 2, 3]"
  by (simp add: upt_conv_Cons)

lemma drawn_ssim: "calculateSSIM drawnState = 1208246194809 / 1290869570809"
  by (simp add: calculateSSIM_def drawnState_def tinyState_fields tinyImage_def Let_def upt4)

lemma tiny_revert:
  "revertLine thinParams drawnState 0 1
     = Some (cleanedState\<lparr>connections := [\<lparr>fromPin = 0, toPin = 1, color = None\<rparr>]\<rparr>)"
  using tiny_cached_line revertMono_thin_251
  by (simp add: revertLine_def revertPixel_def cleanedState_def drawnState_def Let_def
        decr_def densityRevert_def thinParams_def)


lemma cleaned_ssim:
  "calculateSSIM (cleanedState\<lparr>connections := [\<lparr>fromPin = 0, toPin = 1, color = None\<rparr>]\<rparr>)
     = 1215409348809 / 1220603759809"
  by (simp add: calculateSSIM_def cleanedState_def drawnState_def tinyState_fields tinyImage_def
        Let_def upt4)

lemma tiny_backtracking: "runPerceptualBacktracking thinParams drawnState = Some cleanedState"
proof -
  have c: "connections drawnState = [\<lparr>fromPin = 0, toPin = 1, color = None\<rparr>]"
    by (simp add: drawnState_def)
  have s: "backtrackStep thinParams (calculateSSIM drawnState) (Some (drawnState, [])) 0
        = Some (cleanedState\<lparr>connections := [\<lparr>fromPin = 0, toPin = 1, color = None\<rparr>]\<rparr>, [0])"
    using tiny_revert cleaned_ssim drawn_ssim by (simp add: backtrackStep_def c Let_def)
  show ?thesis
    using s by (simp add: runPerceptualBacktracking_def Let_def c spliceOut_def cleanedState_def)
qed

lemma cleaned_preview:
  "generatePreviewDataUrl cleanedState
     = [(254, 254, 254), (254, 254, 254), (255, 255, 255), (255, 255, 255)]"
  by (simp add: generatePreviewDataUrl_def cleanedState_def drawnState_def tinyState_fields
        tinyImage_def upt4)

lemma cleaned_rebuild:
  "map_option generatePreviewDataUrl (rebuildProgressImage thinParams cleanedState)
     = Some [(255, 255, 255), (255, 255, 255), (255, 255, 255), (255, 255, 255)]"
  by (simp add: rebuildProgressImage_def generatePreviewDataUrl_def cleanedState_def
        drawnState_def tinyState_fields tinyImage_def upt4 numeral_eq_Suc)

lemma drawn_rebuild:
  "map_option progressImage (rebuildProgressImage thinParams drawnState)
     = Some (progressImage drawnState)"
  using tiny_cached_line blendMono_thin_white
  by (simp add: rebuildProgressImage_def rebuildLine_def rebuildPixel_def statePixels_def
        drawnState_def tinyState_fields tinyImage_def Let_def thinParams_def numeral_eq_Suc)


lemma palette_parses:
  "\<forall>c\<in>set THREAD_COLOR_PALETTE. parseHexColor (pc_hex c) = Some (pc_rgb c)"
  by (simp add: THREAD_COLOR_PALETTE_def parseHexColor_def parseInt16_def js_slice_def
        hexDigit_def upt_conv_Cons)

lemma previewBlend_subtractive: "previewBlend t opacity cur = blendSubtractive t opacity cur"
proof -
  have "toLinear cur * (1 - opacity) + toLinear t * opacity * toLinear cur
          = toLinear cur * (1 - absorb t opacity)"
    by (simp add: absorb_def algebra_simps)
  then show ?thesis by (simp add: previewBlend_def blendSubtractive_def Let_def)
qed

lemma previewPixel_composite:
  assumes "0 \<le> idx"
  shows "previewPixel c opacity canvas idx = compositePixel c opacity canvas idx"
proof (cases "nat idx < length canvas")
  case True
  then show ?thesis
    using assms
    by (simp add: previewPixel_def compositePixel_def previewBlend_subtractive split: prod.splits)
next
  case False
  have "canvas[nat idx := x] = canvas" for x
    by (intro list_update_beyond) (use False in simp)
  then show ?thesis
    using False by (simp add: previewPixel_def compositePixel_def split: prod.splits)
qed

lemma preview_fold_composite:
  assumes "\<forall>i\<in>set ps. 0 \<le> i"
  shows "foldl (previewPixel c opacity) canvas ps = foldl (compositePixel c opacity) canvas ps"
  using assms
  by (induction ps arbitrary: canvas) (simp_all add: previewPixel_composite)

lemma getLinePixels_consistent:
  assumes "cache_consistent pns w h cache" "a < length pns" "b < length pns"
  shows "\<exists>ps cache'. getLinePixels pns w h tw cache a b = Some (ps, cache') \<and>
           rasterLine (pns ! a) (pns ! b) w h (threadWidthPx tw) = Some ps \<and>
           idx_ok w h ps \<and> cache_consistent pns w h cache'"
proof -
  obtain ps where r: "rasterLine (pns ! a) (pns ! b) w h (threadWidthPx tw) = Some ps"
    and ok: "idx_ok w h ps"
    using rasterLine_total by blast
  show ?thesis
  proof (cases "cache (a, b, threadWidthPx tw)")
    case (Some qs)
    then have "rasterLine (pns ! a) (pns ! b) w h (threadWidthPx tw) = Some qs"
      using assms(1) unfolding cache_consistent_def by blast
    with r have "qs = ps" by simp
    with Some r ok assms(1) show ?thesis by (simp add: getLinePixels_def)
  next
    case None
    have "cache_consistent pns w h (cache((a, b, threadWidthPx tw) \<mapsto> ps))"
      using assms(1) r unfolding cache_consistent_def by auto
    with None r ok assms(2,3) show ?thesis by (simp add: getLinePixels_def)
  qed
qed


lemma previewLine_None: "foldl (previewLine params st) None conns = None"
  by (induction conns) (simp_all add: previewLine_def)

lemma replayLine_None: "foldl (replayLine pns w h tw opacity) None conns = None"
  by (induction conns) (simp_all add: replayLine_def)

lemma rebuildLine_None: "foldl (rebuildLine params) None conns = None"
  by (induction conns) (simp_all add: rebuildLine_def)

lemma previewLine_replayLine:
  assumes "cache_consistent (pins st) (pd_width (targetImage st)) (pd_height (targetImage st)) cache"
    and "fromPin conn < length (pins st)" "toPin conn < length (pins st)"
  shows "\<exists>cache'. cache_consistent (pins st) (pd_width (targetImage st))
                      (pd_height (targetImage st)) cache' \<and>
           previewLine params st (Some (canvas, cache)) conn
             = map_option (\<lambda>cv. (cv, cache'))
                 (replayLine (pins st) (pd_width (targetImage st)) (pd_height (targetImage st))
                    (threadWidth params) (threadOpacity params) (Some canvas) conn)"
proof (cases "parseHexColor (storedColor conn)")
  case None
  then show ?thesis using assms by (auto simp: previewLine_def replayLine_def)
next
  case (Some c)
  obtain ps cache' where g: "getLinePixels (pins st) (pd_width (targetImage st))
        (pd_height (targetImage st)) (threadWidth params) cache (fromPin conn) (toPin conn)
          = Some (ps, cache')"
    and r: "rasterLine (pins st ! fromPin conn) (pins st ! toPin conn) (pd_width (targetImage st))
              (pd_height (targetImage st)) (threadWidthPx (threadWidth params)) = Some ps"
    and ok: "idx_ok (pd_width (targetImage st)) (pd_height (targetImage st)) ps"
    and cc: "cache_consistent (pins st) (pd_width (targetImage st))
               (pd_height (targetImage st)) cache'"
    using getLinePixels_consistent[OF assms] by blast
  have "\<forall>i\<in>set ps. 0 \<le> i" using ok by (simp add: idx_ok_def)
  then have "foldl (previewPixel c (threadOpacity params)) canvas ps
               = foldl (compositePixel c (threadOpacity params)) canvas ps"
    by (rule preview_fold_composite)
  then have "previewLine params st (Some (canvas, cache)) conn
             = map_option (\<lambda>cv. (cv, cache'))
                 (replayLine (pins st) (pd_width (targetImage st)) (pd_height (targetImage st))
                    (threadWidth params) (threadOpacity params) (Some canvas) conn)"
    using assms(2,3) by (simp add: previewLine_def replayLine_def Some g r)
  with cc show ?thesis by blast
qed

lemma preview_fold_replay:
  assumes "cache_consistent (pins st) (pd_width (targetImage st)) (pd_height (targetImage st)) cache"
    and "\<forall>c\<in>set conns. fromPin c < length (pins st) \<and> toPin c < length (pins st)"
  shows "map_option fst (foldl (previewLine params st) (Some (canvas, cache)) conns)
           = foldl (replayLine (pins st) (pd_width (targetImage st)) (pd_height (targetImage st))
                      (threadWidth params) (threadOpacity params)) (Some canvas) conns"
  using assms
proof (induction conns arbitrary: canvas cache)
  case Nil
  show ?case by simp
next
  case (Cons c conns)
  let ?R = "replayLine (pins st) (pd_width (targetImage st)) (pd_height (targetImage st))
              (threadWidth params) (threadOpacity params) (Some canvas) c"
  obtain cache' where cc: "cache_consistent (pins st) (pd_width (targetImage st))
                      (pd_height (targetImage st)) cache'"
    and e: "previewLine params st (Some (canvas, cache)) c = map_option (\<lambda>cv. (cv, cache')) ?R"
    using previewLine_replayLine[OF Cons.prems(1), of c params canvas] Cons.prems(2) by auto
  show ?case
  proof (cases ?R)
    case None
    then show ?thesis using e by (simp add: previewLine_None replayLine_None)
  next
    case (Some cv)
    have "\<forall>c\<in>set conns. fromPin c < length (pins st) \<and> toPin c < length (pins st)"
      using Cons.prems(2) by simp
    from Cons.IH[OF cc this, of cv] Some e show ?thesis by simp
  qed
qed

lemma replay_fold_total:
  assumes "\<forall>c\<in>set conns. parseHexColor (storedColor c) \<noteq> None"
  shows "\<exists>img. foldl (replayLine pns w h tw opacity) (Some canvas) conns = Some img"
  using assms
proof (induction conns arbitrary: canvas)
  case Nil
  show ?case by simp
next
  case (Cons c conns)
  obtain col where p: "parseHexColor (storedColor c) = Some col" using Cons.prems by auto
  obtain ps where r: "rasterLine (pns ! fromPin c) (pns ! toPin c) w h (threadWidthPx tw) = Some ps"
    using rasterLine_total by blast
  have "\<forall>c\<in>set conns. parseHexColor (storedColor c) \<noteq> None" using Cons.prems by simp
  from Cons.IH[OF this] show ?case by (simp add: replayLine_def p r)
qed

lemma color_preview_is_replay:
  assumes "log_ok st"
  shows "generateColorPreviewDataUrl params st
           = replay params (pins st) (pd_width (targetImage st)) (pd_height (targetImage st))
               (connections st)"
  using preview_fold_replay[of st "lineCache st" "connections st" params] assms
  by (simp add: generateColorPreviewDataUrl_def replay_def log_ok_def)


lemma blendMono_black:
  assumes "0 \<le> opacity" "opacity \<le> 1" "0 \<le> v" "v \<le> 255"
  shows "blendSubtractive 0 opacity v = blendMono opacity v"
    and "0 \<le> blendMono opacity v" and "blendMono opacity v \<le> 255"
proof -
  let ?b = "toLinear v * (1 - opacity)"
  have t: "0 \<le> toLinear v" "toLinear v \<le> 1" using toLinear_unit[OF assms(3,4)] by simp_all
  have b0: "0 \<le> ?b" using t assms by simp
  have "?b \<le> 1 * 1" using t assms by (intro mult_mono) simp_all
  then have b1: "?b \<le> 1" by simp
  have "?b powr (1 / 2.2) \<le> 1 powr (1 / 2.2)" using b0 b1 by (intro powr_mono2) simp_all
  then have "?b powr (1 / 2.2) * 255 \<le> 255" by simp
  then have "round (?b powr (1 / 2.2) * 255) \<le> round (255 :: real)" by (rule round_mono)
  then have r: "round (?b powr (1 / 2.2) * 255) \<le> 255" by simp
  have a: "absorb 0 opacity = opacity" by (simp add: absorb_def toLinear_def)
  have m: "blendMono opacity v = max 0 (round (?b powr (1 / 2.2) * 255))"
    by (simp add: blendMono_def toLinear_def Let_def)
  show "blendSubtractive 0 opacity v = blendMono opacity v"
    using r by (simp add: blendSubtractive_def a m Let_def)
  show "0 \<le> blendMono opacity v" by (simp add: m)
  show "blendMono opacity v \<le> 255" using r by (simp add: m)
qed

lemma rebuildPixel_progress:
  "progressImage (foldl (rebuildPixel opacity) s ps)
     = foldl (\<lambda>p idx. p[nat idx := blendMono opacity (p ! nat idx)]) (progressImage s) ps"
  by (induction ps arbitrary: s) (simp_all add: rebuildPixel_def)

lemma mono_fold_composite:
  assumes "0 \<le> opacity" "opacity \<le> 1"
    and "\<forall>v\<in>set p. 0 \<le> v \<and> v \<le> 255"
    and "\<forall>i\<in>set ps. 0 \<le> i \<and> nat i < length p"
  shows "foldl (compositePixel (0, 0, 0) opacity) (map (\<lambda>v. (v, v, v)) p) ps
           = map (\<lambda>v. (v, v, v))
               (foldl (\<lambda>p idx. p[nat idx := blendMono opacity (p ! nat idx)]) p ps) \<and>
         (\<forall>v\<in>set (foldl (\<lambda>p idx. p[nat idx := blendMono opacity (p ! nat idx)]) p ps).
             0 \<le> v \<and> v \<le> 255) \<and>
         length (foldl (\<lambda>p idx. p[nat idx := blendMono opacity (p ! nat idx)]) p ps) = length p"
  using assms(3,4)
proof (induction ps arbitrary: p)
  case Nil
  then show ?case by simp
next
  case (Cons i ps)
  let ?p' = "p[nat i := blendMono opacity (p ! nat i)]"
  have i: "nat i < length p" using Cons.prems(2) by simp
  then have v: "0 \<le> p ! nat i" "p ! nat i \<le> 255" using Cons.prems(1) by simp_all
  note bm = blendMono_black[OF assms(1,2) v]
  have c: "compositePixel (0, 0, 0) opacity (map (\<lambda>v. (v, v, v)) p) i
             = map (\<lambda>v. (v, v, v)) ?p'"
    using i bm(1) by (simp add: compositePixel_def map_update)
  have "set ?p' \<subseteq> insert (blendMono opacity (p ! nat i)) (set p)"
    by (rule set_update_subset_insert)
  then have r: "\<forall>v\<in>set ?p'. 0 \<le> v \<and> v \<le> 255"
    using Cons.prems(1) bm(2,3) by auto
  have l: "\<forall>i\<in>set ps. 0 \<le> i \<and> nat i < length ?p'" using Cons.prems(2) by simp
  from Cons.IH[OF r l] c show ?case by simp
qed

lemma rebuildLine_replayLine:
  assumes "0 \<le> threadOpacity params" "threadOpacity params \<le> 1"
    and "cache_consistent (pins s) (pd_width (targetImage s)) (pd_height (targetImage s))
           (lineCache s)"
    and "length (progressImage s) = nat (pd_width (targetImage s) * pd_height (targetImage s))"
    and "\<forall>v\<in>set (progressImage s). 0 \<le> v \<and> v \<le> 255"
    and "fromPin conn < length (pins s)" "toPin conn < length (pins s)"
    and "parseHexColor (storedColor conn) = Some (0, 0, 0)"
  shows "\<exists>s'. rebuildLine params (Some s) conn = Some s' \<and>
           replayLine (pins s) (pd_width (targetImage s)) (pd_height (targetImage s))
               (threadWidth params) (threadOpacity params)
               (Some (map (\<lambda>v. (v, v, v)) (progressImage s))) conn
             = Some (map (\<lambda>v. (v, v, v)) (progressImage s')) \<and>
           pins s' = pins s \<and> targetImage s' = targetImage s \<and>
           connections s' = connections s \<and>
           cache_consistent (pins s) (pd_width (targetImage s)) (pd_height (targetImage s))
             (lineCache s') \<and>
           length (progressImage s') = length (progressImage s) \<and>
           (\<forall>v\<in>set (progressImage s'). 0 \<le> v \<and> v \<le> 255)"
proof -
  let ?w = "pd_width (targetImage s)" and ?h = "pd_height (targetImage s)"
  obtain ps cache' where g: "statePixels params s (fromPin conn) (toPin conn) = Some (ps, cache')"
    and r: "rasterLine (pins s ! fromPin conn) (pins s ! toPin conn) ?w ?h
              (threadWidthPx (threadWidth params)) = Some ps"
    and ok: "idx_ok ?w ?h ps"
    and cc: "cache_consistent (pins s) ?w ?h cache'"
    using getLinePixels_consistent[OF assms(3,6,7)] unfolding statePixels_def by blast
  have "\<forall>i\<in>set ps. 0 \<le> i \<and> nat i < length (progressImage s)"
    using ok assms(4) by (auto simp: idx_ok_def)
  note f = mono_fold_composite[OF assms(1,2,5) this]
  show ?thesis
    using f cc
    by (simp add: rebuildLine_def replayLine_def g r assms(8) Let_def rebuildPixel_progress
          rebuildPixel_fields)
qed

lemma rebuild_fold_replay:
  assumes "0 \<le> threadOpacity params" "threadOpacity params \<le> 1"
    and "cache_consistent (pins s) (pd_width (targetImage s)) (pd_height (targetImage s))
           (lineCache s)"
    and "length (progressImage s) = nat (pd_width (targetImage s) * pd_height (targetImage s))"
    and "\<forall>v\<in>set (progressImage s). 0 \<le> v \<and> v \<le> 255"
    and "\<forall>c\<in>set conns. fromPin c < length (pins s) \<and> toPin c < length (pins s) \<and>
            parseHexColor (storedColor c) = Some (0, 0, 0)"
  shows "\<exists>s'. foldl (rebuildLine params) (Some s) conns = Some s' \<and>
           foldl (replayLine (pins s) (pd_width (targetImage s)) (pd_height (targetImage s))
                    (threadWidth params) (threadOpacity params))
               (Some (map (\<lambda>v. (v, v, v)) (progressImage s))) conns
             = Some (map (\<lambda>v. (v, v, v)) (progressImage s')) \<and>
           targetImage s' = targetImage s \<and> connections s' = connections s \<and>
           length (progressImage s') = length (progressImage s) \<and>
           (\<forall>v\<in>set (progressImage s'). 0 \<le> v \<and> v \<le> 255)"
  using assms(3,4,5,6)
proof (induction conns arbitrary: s)
  case Nil
  then show ?case by simp
next
  case (Cons c conns)
  have c: "fromPin c < length (pins s)" "toPin c < length (pins s)"
    "parseHexColor (storedColor c) = Some (0, 0, 0)" using Cons.prems(4) by simp_all
  obtain s1 where r: "rebuildLine params (Some s) c = Some s1"
    and p: "replayLine (pins s) (pd_width (targetImage s)) (pd_height (targetImage s))
               (threadWidth params) (threadOpacity params)
               (Some (map (\<lambda>v. (v, v, v)) (progressImage s))) c
             = Some (map (\<lambda>v. (v, v, v)) (progressImage s1))"
    and k: "pins s1 = pins s" "targetImage s1 = targetImage s" "connections s1 = connections s"
    and cc: "cache_consistent (pins s) (pd_width (targetImage s)) (pd_height (targetImage s))
             (lineCache s1)"
    and l: "length (progressImage s1) = length (progressImage s)"
    and v: "\<forall>v\<in>set (progressImage s1). 0 \<le> v \<and> v \<le> 255"
    using rebuildLine_replayLine[OF assms(1,2) Cons.prems(1,2,3) c] by blast
  have cc1: "cache_consistent (pins s1) (pd_width (targetImage s1)) (pd_height (targetImage s1))
             (lineCache s1)" using cc k by simp
  have l1: "length (progressImage s1)
              = nat (pd_width (targetImage s1) * pd_height (targetImage s1))"
    using l k Cons.prems(2) by simp
  have q: "\<forall>c\<in>set conns. fromPin c < length (pins s1) \<and> toPin c < length (pins s1) \<and>
            parseHexColor (storedColor c) = Some (0, 0, 0)" using Cons.prems(4) k by simp
  from Cons.IH[OF cc1 l1 v q] r p k l show ?case by simp
qed

lemma preview_of_bytes:
  assumes "length p = n" "\<forall>v\<in>set p. 0 \<le> v \<and> v \<le> (255 :: int)"
  shows "map (\<lambda>i. if i < length p
                  then (let val = max 0 (min 255 (p ! i)) in (val, val, val))
                  else (0, 0, 0)) [0 ..< n]
           = map (\<lambda>v. (v, v, v)) p"
  using assms by (auto simp: list_eq_iff_nth_eq Let_def)

lemma rebuild_is_replay:
  assumes "log_ok st" "0 \<le> threadOpacity params" "threadOpacity params \<le> 1"
    and "\<forall>c\<in>set (connections st). parseHexColor (storedColor c) = Some (0, 0, 0)"
  shows "\<exists>st'. rebuildProgressImage params st = Some st' \<and> connections st' = connections st \<and>
           replay params (pins st) (pd_width (targetImage st)) (pd_height (targetImage st))
               (connections st)
             = Some (generatePreviewDataUrl st')"
proof -
  let ?n = "nat (pd_width (targetImage st) * pd_height (targetImage st))"
  let ?s0 = "st\<lparr> progressImage := replicate ?n 255,
                  pinUsageCount := replicate (length (pins st)) 0 \<rparr>"
  have a: "cache_consistent (pins ?s0) (pd_width (targetImage ?s0)) (pd_height (targetImage ?s0))
             (lineCache ?s0)" using assms(1) by (simp add: log_ok_def)
  have b: "length (progressImage ?s0)
             = nat (pd_width (targetImage ?s0) * pd_height (targetImage ?s0))" by simp
  have c: "\<forall>v\<in>set (progressImage ?s0). 0 \<le> v \<and> v \<le> 255" by simp
  have d: "\<forall>c\<in>set (connections st). fromPin c < length (pins ?s0) \<and>
             toPin c < length (pins ?s0) \<and> parseHexColor (storedColor c) = Some (0, 0, 0)"
    using assms(1,4) by (simp add: log_ok_def)
  obtain s' where r: "foldl (rebuildLine params) (Some ?s0) (connections st) = Some s'"
    and p: "foldl (replayLine (pins ?s0) (pd_width (targetImage ?s0)) (pd_height (targetImage ?s0))
                    (threadWidth params) (threadOpacity params))
               (Some (map (\<lambda>v. (v, v, v)) (progressImage ?s0))) (connections st)
             = Some (map (\<lambda>v. (v, v, v)) (progressImage s'))"
    and k: "targetImage s' = targetImage ?s0" "connections s' = connections ?s0"
    and l: "length (progressImage s') = length (progressImage ?s0)"
    and v: "\<forall>v\<in>set (progressImage s'). 0 \<le> v \<and> v \<le> 255"
    using rebuild_fold_replay[OF assms(2,3) a b c d] by blast
  have "generatePreviewDataUrl s' = map (\<lambda>v. (v, v, v)) (progressImage s')"
    unfolding generatePreviewDataUrl_def
    using preview_of_bytes[of "progressImage s'" ?n] l v k by simp
  with r p k show ?thesis
    by (simp add: rebuildProgressImage_def replay_def)
qed


lemma black_parses: "parseHexColor ''#000000'' = Some (0, 0, 0)"
  using palette_parses by (simp add: THREAD_COLOR_PALETTE_def)

lemma magenta_parses: "parseHexColor ''#E91E63'' = Some (233, 30, 99)"
  using palette_parses by (simp add: THREAD_COLOR_PALETTE_def)

lemma drawn_log_ok: "log_ok drawnState"
  using tiny_rasterLine
  by (auto simp: log_ok_def cache_consistent_def drawnState_def tinyState_fields tinyImage_def
        tinyPins_def split: if_splits)

lemma magenta_log_ok: "log_ok magentaState"
  by (simp add: log_ok_def cache_consistent_def magentaState_def tinyState_fields tinyPins_def)


text \<open>
  Claim C1 as stated says that replaying the connections of a result on a white canvas
  at the thread opacity gives the preview, in monochrome mode too. In monochrome mode the
  preview is the progress canvas, and the backtracking pass that ends a run reverts lines
  on that canvas with a reverse blend that does not undo the rounding of the forward one.
  With opacity 0.03 on the white 2 by 2 target: one line from pin 0 to pin 1 gives the
  canvas \<open>[251, 251, 255, 255]\<close>, which is the replay of the log at that moment; the
  backtracking pass reverts the line to \<open>[254, 254, 255, 255]\<close>, finds the similarity
  risen by more than 0.001 and removes the connection. The log is then empty, its replay
  is white, and the preview is not.
\<close>

theorem backtracking_preview_not_replay_counterexample:
  "applyLineWithColor thinParams tinyState 0 1 None = Some drawnState \<and>
   map_option progressImage (rebuildProgressImage thinParams drawnState)
     = Some (progressImage drawnState) \<and>
   runPerceptualBacktracking thinParams drawnState = Some cleanedState \<and>
   connections cleanedState = [] \<and>
   generatePreviewDataUrl cleanedState
     = [(254, 254, 254), (254, 254, 254), (255, 255, 255), (255, 255, 255)] \<and>
   replay thinParams (pins cleanedState) (pd_width (targetImage cleanedState))
       (pd_height (targetImage cleanedState)) (connections cleanedState)
     = Some [(255, 255, 255), (255, 255, 255), (255, 255, 255), (255, 255, 255)] \<and>
   replay thinParams (pins cleanedState) (pd_width (targetImage cleanedState))
       (pd_height (targetImage cleanedState)) (connections cleanedState)
     \<noteq> Some (generatePreviewDataUrl cleanedState)"
proof -
  have c: "connections cleanedState = []" by (simp add: cleanedState_def)
  have r: "replay thinParams (pins cleanedState) (pd_width (targetImage cleanedState))
       (pd_height (targetImage cleanedState)) (connections cleanedState)
     = Some [(255, 255, 255), (255, 255, 255), (255, 255, 255), (255, 255, 255)]"
    by (simp add: replay_def c cleanedState_def drawnState_def tinyState_fields tinyImage_def
          numeral_eq_Suc)
  show ?thesis
    unfolding r cleaned_preview
    using tiny_draw drawn_rebuild tiny_backtracking c by simp
qed


text \<open>
  Claim C1, amended. For a state whose line cache is consistent and whose connections
  join existing pins: the colour preview is the replay of the log with the subtractive
  compositor at the thread opacity and the stored colours, and it exists when every
  stored colour parses (the multiplicative form of the preview blend and the subtractive
  form of the compositor are the same function); for an opacity in \<open>[0, 1]\<close> and a log
  whose colours are black or absent, the canvas that \<^verbatim>\<open>rebuildProgressImage\<close> builds has
  the replay as its monochrome preview; and each palette colour parses to the RGB triple
  the compositor uses for it. Nothing is stated on the monochrome preview after the
  passes that revert lines.
\<close>

theorem preview_is_replay_of_log:
  assumes "log_ok st"
  shows "generateColorPreviewDataUrl params st
           = replay params (pins st) (pd_width (targetImage st)) (pd_height (targetImage st))
               (connections st) \<and>
         ((\<forall>c\<in>set (connections st). parseHexColor (storedColor c) \<noteq> None) \<longrightarrow>
            (\<exists>img. generateColorPreviewDataUrl params st = Some img)) \<and>
         (0 \<le> threadOpacity params \<and> threadOpacity params \<le> 1 \<and>
          (\<forall>c\<in>set (connections st). parseHexColor (storedColor c) = Some (0, 0, 0)) \<longrightarrow>
            (\<exists>st'. rebuildProgressImage params st = Some st' \<and>
               connections st' = connections st \<and>
               replay params (pins st) (pd_width (targetImage st)) (pd_height (targetImage st))
                   (connections st)
                 = Some (generatePreviewDataUrl st'))) \<and>
         (\<forall>c\<in>set THREAD_COLOR_PALETTE. parseHexColor (pc_hex c) = Some (pc_rgb c))"
proof (intro conjI impI)
  show e: "generateColorPreviewDataUrl params st
           = replay params (pins st) (pd_width (targetImage st)) (pd_height (targetImage st))
               (connections st)"
    by (rule color_preview_is_replay[OF assms])
  show "\<exists>img. generateColorPreviewDataUrl params st = Some img"
    if "\<forall>c\<in>set (connections st). parseHexColor (storedColor c) \<noteq> None"
    unfolding e replay_def by (rule replay_fold_total[OF that])
  show "\<exists>st'. rebuildProgressImage params st = Some st' \<and>
               connections st' = connections st \<and>
               replay params (pins st) (pd_width (targetImage st)) (pd_height (targetImage st))
                   (connections st)
                 = Some (generatePreviewDataUrl st')"
    if "0 \<le> threadOpacity params \<and> threadOpacity params \<le> 1 \<and>
          (\<forall>c\<in>set (connections st). parseHexColor (storedColor c) = Some (0, 0, 0))"
    using rebuild_is_replay[OF assms, of params] that by blast
  show "\<forall>c\<in>set THREAD_COLOR_PALETTE. parseHexColor (pc_hex c) = Some (pc_rgb c)"
    by (rule palette_parses)
qed


theorem preview_is_replay_of_log_witness:
  "log_ok magentaState \<and>
   map (\<lambda>c. parseHexColor (storedColor c)) (connections magentaState)
     = [Some (233, 30, 99)] \<and>
   generateColorPreviewDataUrl defaultParams magentaState
     = replay defaultParams (pins magentaState) (pd_width (targetImage magentaState))
         (pd_height (targetImage magentaState)) (connections magentaState) \<and>
   (\<exists>img. generateColorPreviewDataUrl defaultParams magentaState = Some img) \<and>
   log_ok drawnState \<and> 0 \<le> threadOpacity thinParams \<and> threadOpacity thinParams \<le> 1 \<and>
   map (\<lambda>c. parseHexColor (storedColor c)) (connections drawnState) = [Some (0, 0, 0)] \<and>
   (\<exists>st'. rebuildProgressImage thinParams drawnState = Some st' \<and>
      connections st' = connections drawnState \<and>
      replay thinParams (pins drawnState) (pd_width (targetImage drawnState))
          (pd_height (targetImage drawnState)) (connections drawnState)
        = Some (generatePreviewDataUrl st'))"
proof -
  have p1: "\<forall>c\<in>set (connections magentaState). parseHexColor (storedColor c) \<noteq> None"
    by (simp add: magentaState_def storedColor_def magenta_parses)
  have p2: "\<forall>c\<in>set (connections drawnState). parseHexColor (storedColor c) = Some (0, 0, 0)"
    by (simp add: drawnState_def storedColor_def black_parses)
  have o: "0 \<le> threadOpacity thinParams \<and> threadOpacity thinParams \<le> 1"
    by (simp add: thinParams_def)
  have q1: "map (\<lambda>c. parseHexColor (storedColor c)) (connections magentaState)
              = [Some (233, 30, 99)]"
    by (simp add: magentaState_def storedColor_def magenta_parses)
  have q2: "map (\<lambda>c. parseHexColor (storedColor c)) (connections drawnState)
              = [Some (0, 0, 0)]"
    by (simp add: drawnState_def storedColor_def black_parses)
  show ?thesis
    unfolding q1 q2
    using preview_is_replay_of_log[where st = magentaState and params = defaultParams]
          preview_is_replay_of_log[where st = drawnState and params = thinParams]
          magenta_log_ok drawn_log_ok p1 p2 o
    by blast
qed

end
